theory Spec2Isabelle
  imports Main "HOL-Library.Word" "HOL-Library.List_Lexorder" "HOL-Library.Char_ord"
begin

section \<open>File upload component (components/FileUpload.tsx)\<close>

text \<open>
  A browser \<open>File\<close> is modelled by the three things the component reads from it: its
  name, its MIME type and its bytes. \<open>file.size\<close> is the number of bytes.
\<close>

type_synonym byte = "8 word"

record File =
  file_name :: string
  file_type :: string
  file_bytes :: "byte list"

definition file_size :: "File \<Rightarrow> nat" where
  "file_size f = length (file_bytes f)"

record FileWithHash =
  file_of :: File
  hash :: string
  preview :: "string option"
  uploadProgress :: "nat option"
  uploaded :: "bool option"
  error :: "string option"

subsection \<open>calculateFileHash\<close>

text \<open>
  \<open>Number.prototype.toString(16)\<close> on a non-negative integer: the digits come from
  \<open>0123456789abcdef\<close>, most significant first, with no leading zero.
\<close>

definition hexDigit :: "nat \<Rightarrow> char" where
  "hexDigit d = ''0123456789abcdef'' ! d"

fun toString16 :: "nat \<Rightarrow> string" where
  "toString16 n =
     (if n < 16 then [hexDigit n] else toString16 (n div 16) @ [hexDigit (n mod 16)])"

declare toString16.simps [simp del]

text \<open>
  \<open>String.prototype.padStart(targetLength, padString)\<close>: the pad string is repeated
  and cut to fill the missing length; a string that is long enough is returned as it is.
\<close>

definition padStart :: "nat \<Rightarrow> string \<Rightarrow> string \<Rightarrow> string" where
  "padStart targetLength padString s =
     (if targetLength \<le> length s \<or> padString = [] then s
      else take (targetLength - length s)
             (concat (replicate (targetLength - length s) padString)) @ s)"

text \<open>
  \<open>crypto.subtle.digest('SHA-256', buf)\<close> belongs to the browser, so it is the
  parameter \<open>digest\<close>; the result is read through a \<open>Uint8Array\<close>, a list of bytes.
  This is the value of the promise when the file is read and the digest computed; the
  rejection of either is accounted for where the component awaits the hash.
  The code maps every byte to \<open>b.toString(16).padStart(2, '0')\<close> and joins the pieces
  with the empty separator.
\<close>

definition calculateFileHash :: "(byte list \<Rightarrow> byte list) \<Rightarrow> File \<Rightarrow> string" where
  "calculateFileHash digest f =
     (let arrayBuffer = file_bytes f;
          hashArray = digest arrayBuffer;
          hashHex = concat (map (\<lambda>b. padStart 2 ''0'' (toString16 (unat b))) hashArray)
      in hashHex)"

subsection \<open>generatePreview\<close>

definition startsWith :: "string \<Rightarrow> string \<Rightarrow> bool" where
  "startsWith s p = (take (length p) s = p)"

text \<open>
  \<open>FileReader.readAsDataURL\<close> is the parameter \<open>reader\<close>; \<open>None\<close> is the
  \<open>onerror\<close> outcome, which resolves the promise with \<open>undefined\<close>.
\<close>

definition generatePreview :: "(File \<Rightarrow> string option) \<Rightarrow> File \<Rightarrow> string option" where
  "generatePreview reader f =
     (if startsWith (file_type f) ''image/'' then reader f else None)"

section \<open>JavaScript values and JSON\<close>

text \<open>
  The values that travel through the services and pages: what \<open>JSON.parse\<close> produces,
  plus \<open>undefined\<close>. An object is the list of its own properties in property order
  (the keys used here are identifier-like, so that order is insertion order, and a parsed
  object has no duplicate key). A number is carried as the text that ECMAScript's
  \<open>Number::toString\<close> gives for it: the code never calculates with a number of a
  response, it only tests it for truthiness, converts it to a string and serialises it,
  and all three are functions of that text. Strings are lists of 8-bit characters; the
  code below copies, compares, concatenates and escapes them.
\<close>

datatype jsval =
    JUndefined
  | JNull
  | JBool bool
  | JNum string
  | JStr string
  | JArr "jsval list"
  | JObj "(string \<times> jsval) list"

text \<open>\<open>ToBoolean\<close>: the values that make \<open>!v\<close> true are the falsy ones.\<close>

fun truthy :: "jsval \<Rightarrow> bool" where
  "truthy JUndefined = False"
| "truthy JNull = False"
| "truthy (JBool b) = b"
| "truthy (JNum n) = (n \<noteq> ''0'' \<and> n \<noteq> ''NaN'')"
| "truthy (JStr s) = (s \<noteq> [])"
| "truthy (JArr xs) = True"
| "truthy (JObj kvs) = True"

text \<open>\<open>a || b\<close>\<close>

definition or_else :: "jsval \<Rightarrow> jsval \<Rightarrow> jsval" where
  "or_else a b = (if truthy a then a else b)"

definition join :: "string \<Rightarrow> string list \<Rightarrow> string" where
  "join sep parts = (case parts of [] \<Rightarrow> [] | p # ps \<Rightarrow> p @ concat (map (\<lambda>q. sep @ q) ps))"

text \<open>
  \<open>ToString\<close>, as \<open>new Error(v)\<close> and template literals apply it. An array joins its
  elements with a comma, \<open>null\<close> and \<open>undefined\<close> elements giving the empty string.
\<close>

fun toString :: "jsval \<Rightarrow> string" where
  "toString JUndefined = ''undefined''"
| "toString JNull = ''null''"
| "toString (JBool b) = (if b then ''true'' else ''false'')"
| "toString (JNum n) = n"
| "toString (JStr s) = s"
| "toString (JArr xs) =
     join '','' (map (\<lambda>x. if x = JNull \<or> x = JUndefined then [] else toString x) xs)"
| "toString (JObj kvs) = ''[object Object]''"

text \<open>Decimal text of a non-negative integer, as a template literal prints a status code.\<close>

fun decimal :: "nat \<Rightarrow> string" where
  "decimal n =
     (if n < 10 then [''0123456789'' ! n] else decimal (n div 10) @ [''0123456789'' ! (n mod 10)])"

declare decimal.simps [simp del]

text \<open>
  What a \<open>throw\<close> or a rejected promise carries. \<open>Error\<close> is an error object made by
  the code itself with \<open>new Error(message)\<close>. The others are made by the platform:
  a property read on \<open>null\<close> (a \<open>TypeError\<close>; the property name is kept), the rejection
  of \<open>response.json()\<close> on a body that is not JSON (a \<open>SyntaxError\<close>, with the
  parser's message) and the rejection of \<open>fetch\<close> itself (a \<open>TypeError\<close>, with the
  browser's message); \<open>RangeError\<close> is what \<open>Date.prototype.toISOString\<close> throws
  on an invalid date. \<open>Thrown\<close> is any value that is not an error object.
\<close>

datatype thrown =
    Error string
  | NullPropertyRead string
  | JsonSyntaxError string
  | FetchFailed string
  | RangeError string
  | Thrown jsval

fun instanceofError :: "thrown \<Rightarrow> bool" where
  "instanceofError (Thrown v) = False"
| "instanceofError e = True"

text \<open>
  \<open>err.message\<close> of an error object. The text of the engine's own \<open>TypeError\<close> differs
  between engines; V8's wording is used.
\<close>

fun message_of :: "thrown \<Rightarrow> string" where
  "message_of (Error m) = m"
| "message_of (NullPropertyRead k) =
     ''Cannot read properties of null (reading '' @ [CHR 0x27] @ k @ [CHR 0x27] @ '')''"
| "message_of (JsonSyntaxError m) = m"
| "message_of (FetchFailed m) = m"
| "message_of (RangeError m) = m"
| "message_of (Thrown v) = []"

text \<open>
  \<open>v.k\<close> for a property name \<open>k\<close> that no built-in prototype defines (all the names
  read below are of that kind): an object gives its own property or \<open>undefined\<close>,
  \<open>null\<close> and \<open>undefined\<close> throw, every other value gives \<open>undefined\<close>.
\<close>

fun getProp :: "jsval \<Rightarrow> string \<Rightarrow> thrown + jsval" where
  "getProp JUndefined k = Inl (NullPropertyRead k)"
| "getProp JNull k = Inl (NullPropertyRead k)"
| "getProp (JObj kvs) k = Inr (case map_of kvs k of None \<Rightarrow> JUndefined | Some v \<Rightarrow> v)"
| "getProp v k = Inr JUndefined"

text \<open>
  The own property \<open>k\<close> of a value that is neither \<open>null\<close> nor \<open>undefined\<close>:
  what \<open>v.k\<close> gives when it does not throw. The properties below speak of it.
\<close>

fun own :: "jsval \<Rightarrow> string \<Rightarrow> jsval" where
  "own (JObj kvs) k = (case map_of kvs k of None \<Rightarrow> JUndefined | Some v \<Rightarrow> v)"
| "own v k = JUndefined"

definition thenE :: "'e + 'a \<Rightarrow> ('a \<Rightarrow> 'e + 'b) \<Rightarrow> 'e + 'b" where
  "thenE x k = (case x of Inl e \<Rightarrow> Inl e | Inr v \<Rightarrow> k v)"

subsection \<open>JSON.stringify\<close>

definition dquote :: char where
  "dquote = CHR 0x22"

definition backslash :: char where
  "backslash = CHR 0x5C"

definition newline :: char where
  "newline = CHR 0x0A"

text \<open>\<open>QuoteJSONString\<close> on 8-bit characters.\<close>

definition hex4 :: "nat \<Rightarrow> string" where
  "hex4 n = padStart 4 ''0'' (toString16 n)"

definition quoteChar :: "char \<Rightarrow> string" where
  "quoteChar c =
     (if c = dquote then [backslash, dquote]
      else if c = backslash then [backslash, backslash]
      else if c = CHR 0x08 then [backslash, CHR ''b'']
      else if c = CHR 0x09 then [backslash, CHR ''t'']
      else if c = CHR 0x0A then [backslash, CHR ''n'']
      else if c = CHR 0x0C then [backslash, CHR ''f'']
      else if c = CHR 0x0D then [backslash, CHR ''r'']
      else if of_char c < (0x20 :: nat) then [backslash, CHR ''u''] @ hex4 (of_char c)
      else [c])"

definition quoteJSON :: "string \<Rightarrow> string" where
  "quoteJSON s = [dquote] @ concat (map quoteChar s) @ [dquote]"

text \<open>
  \<open>SerializeJSONProperty\<close> with no replacer: \<open>gap\<close> is the indentation unit (empty
  for \<open>JSON.stringify(v)\<close>, two spaces for \<open>JSON.stringify(v, null, 2)\<close>) and \<open>ind\<close>
  the current indentation. The result is \<open>None\<close> for \<open>undefined\<close>; a property whose
  value is \<open>undefined\<close> is left out of an object, and an array prints it as \<open>null\<close>.
\<close>

definition wrap :: "string \<Rightarrow> string \<Rightarrow> string \<Rightarrow> string \<Rightarrow> string \<Rightarrow> string list \<Rightarrow> string" where
  "wrap gap stepback ind opening closing partial =
     (if partial = [] then opening @ closing
      else if gap = [] then opening @ join '','' partial @ closing
      else opening @ [newline] @ ind @ join ('','' @ [newline] @ ind) partial
             @ [newline] @ stepback @ closing)"

fun serialize :: "string \<Rightarrow> string \<Rightarrow> jsval \<Rightarrow> string option" where
  "serialize gap ind JUndefined = None"
| "serialize gap ind JNull = Some ''null''"
| "serialize gap ind (JBool b) = Some (if b then ''true'' else ''false'')"
| "serialize gap ind (JNum n) =
     Some (if n = ''NaN'' \<or> n = ''Infinity'' \<or> n = ''-Infinity'' then ''null'' else n)"
| "serialize gap ind (JStr s) = Some (quoteJSON s)"
| "serialize gap ind (JArr xs) =
     Some (wrap gap ind (ind @ gap) ''['' '']''
       (map (\<lambda>x. case serialize gap (ind @ gap) x of None \<Rightarrow> ''null'' | Some t \<Rightarrow> t) xs))"
| "serialize gap ind (JObj kvs) =
     Some (wrap gap ind (ind @ gap) ''{'' ''}''
       (concat (map (\<lambda>kv. case serialize gap (ind @ gap) (snd kv) of
                            None \<Rightarrow> []
                          | Some t \<Rightarrow> [quoteJSON (fst kv) @ (if gap = [] then '':'' else '': '') @ t])
                    kvs)))"

text \<open>\<open>JSON.stringify(v)\<close> and \<open>JSON.stringify(v, null, 2)\<close>.\<close>

definition JSON_stringify :: "jsval \<Rightarrow> string option" where
  "JSON_stringify v = serialize [] [] v"

definition JSON_stringify_2 :: "jsval \<Rightarrow> string option" where
  "JSON_stringify_2 v = serialize ''  '' [] v"

section \<open>File upload component: processFiles\<close>

text \<open>
  What the \<open>catch\<close> of \<open>processFiles\<close> and its count check tell the user. The first
  three constructors keep the data that the alert text is built from (the limit, the name
  of the offending file). \<open>FailedToProcess\<close> holds whatever else reaches the
  \<open>catch\<close>: the alert shows its message when it is an error object and
  \<open>Failed to process files\<close> otherwise.
\<close>

datatype upload_alert =
    MaximumFilesAllowed nat
  | ExceedsMaximumSize string nat
  | UnsupportedFileType string
  | FailedToProcess thrown

text \<open>
  The observable effects of one call of \<open>processFiles\<close>: the alerts shown and the
  arguments of every call of the \<open>onFilesChange\<close> callback, in order.
\<close>

record upload_effects =
  alerts :: "upload_alert list"
  onFilesChange_calls :: "FileWithHash list list"

text \<open>
  How the promise of one \<open>async (file) => ...\<close> callback settles. A \<open>throw\<close> before
  the first \<open>await\<close> rejects the promise at once, while the callbacks are still being
  started; a rejection of an awaited promise rejects it later.
\<close>

datatype ('e, 'a) settled = RejectedAtOnce 'e | RejectedLater 'e | Fulfilled 'a

text \<open>
  The body of the callback. Both validations throw before the first \<open>await\<close>.
  \<open>acceptedTypes\<close> is an optional property: when it is absent the type check is
  skipped; an empty array is truthy and accepts nothing. Then the callback awaits
  \<open>calculateFileHash(file)\<close> and \<open>generatePreview(file)\<close>. The first is rejected
  when \<open>file.arrayBuffer()\<close> or \<open>crypto.subtle.digest\<close> is (a file that can no
  longer be read, a page without \<open>crypto.subtle\<close>); the parameter \<open>rejection\<close>
  gives the reason for such a file and \<open>None\<close> for a file that is read and hashed.
  \<open>generatePreview\<close> never rejects.
\<close>

definition processFile ::
  "(byte list \<Rightarrow> byte list) \<Rightarrow> (File \<Rightarrow> string option) \<Rightarrow> (File \<Rightarrow> thrown option) \<Rightarrow>
   nat \<Rightarrow> string list option \<Rightarrow> File \<Rightarrow> (upload_alert, FileWithHash) settled" where
  "processFile digest reader rejection maxSize acceptedTypes f =
     (if file_size f > maxSize then RejectedAtOnce (ExceedsMaximumSize (file_name f) maxSize)
      else if (case acceptedTypes of None \<Rightarrow> False | Some ts \<Rightarrow> file_type f \<notin> set ts)
        then RejectedAtOnce (UnsupportedFileType (file_name f))
      else
        (case rejection f of
           Some t \<Rightarrow> RejectedLater (FailedToProcess t)
         | None \<Rightarrow>
             Fulfilled \<lparr> file_of = f,
                         hash = calculateFileHash digest f,
                         preview = generatePreview reader f,
                         uploadProgress = Some 0,
                         uploaded = Some False,
                         error = None \<rparr>))"

text \<open>
  \<open>Promise.all\<close>: rejected with the first rejection to happen, fulfilled with all the
  values, in array order, when there is none. The rejections at once happen first, in
  array order. Which of several later rejections comes first depends on the platform; the
  first in array order is taken here, and only the text of the alert depends on that.
\<close>

fun rejectedAtOnce :: "('e, 'a) settled list \<Rightarrow> 'e option" where
  "rejectedAtOnce [] = None"
| "rejectedAtOnce (RejectedAtOnce e # ps) = Some e"
| "rejectedAtOnce (p # ps) = rejectedAtOnce ps"

fun rejectedLater :: "('e, 'a) settled list \<Rightarrow> 'e option" where
  "rejectedLater [] = None"
| "rejectedLater (RejectedLater e # ps) = Some e"
| "rejectedLater (p # ps) = rejectedLater ps"

fun fulfilled :: "('e, 'a) settled list \<Rightarrow> 'a list" where
  "fulfilled [] = []"
| "fulfilled (Fulfilled v # ps) = v # fulfilled ps"
| "fulfilled (p # ps) = fulfilled ps"

definition promiseAll :: "('e, 'a) settled list \<Rightarrow> 'e + 'a list" where
  "promiseAll ps =
     (case rejectedAtOnce ps of
        Some e \<Rightarrow> Inl e
      | None \<Rightarrow> (case rejectedLater ps of Some e \<Rightarrow> Inl e | None \<Rightarrow> Inr (fulfilled ps)))"

text \<open>
  \<open>processFiles\<close>: the count check returns before anything is started; everything
  else runs inside \<open>try\<close>, and the \<open>catch\<close> turns any rejection into an alert.
\<close>

definition processFiles ::
  "(byte list \<Rightarrow> byte list) \<Rightarrow> (File \<Rightarrow> string option) \<Rightarrow> (File \<Rightarrow> thrown option) \<Rightarrow>
   FileWithHash list \<Rightarrow> nat \<Rightarrow> nat \<Rightarrow> string list option \<Rightarrow> File list \<Rightarrow> upload_effects" where
  "processFiles digest reader rejection files maxFiles maxSize acceptedTypes fileList =
     (let fileArray = fileList in
      if length files + length fileArray > maxFiles
        then \<lparr> alerts = [MaximumFilesAllowed maxFiles], onFilesChange_calls = [] \<rparr>
      else
        (case promiseAll (map (processFile digest reader rejection maxSize acceptedTypes) fileArray) of
           Inr processedFiles \<Rightarrow>
             \<lparr> alerts = [], onFilesChange_calls = [files @ processedFiles] \<rparr>
         | Inl e \<Rightarrow> \<lparr> alerts = [e], onFilesChange_calls = [] \<rparr>))"

text \<open>The defaults of the component's properties.\<close>

definition default_maxFiles :: nat where
  "default_maxFiles = 10"

definition default_maxSize :: nat where
  "default_maxSize = 100 * 1024 * 1024"

text \<open>
  A file is refused when it is too large, of a type that is not accepted, or cannot be
  read and hashed.
\<close>

definition refused :: "(File \<Rightarrow> thrown option) \<Rightarrow> nat \<Rightarrow> string list option \<Rightarrow> File \<Rightarrow> bool" where
  "refused rejection maxSize acceptedTypes f \<longleftrightarrow>
     file_size f > maxSize
     \<or> (case acceptedTypes of None \<Rightarrow> False | Some ts \<Rightarrow> file_type f \<notin> set ts)
     \<or> rejection f \<noteq> None"

section \<open>HTTP, as the services see it\<close>

text \<open>
  The build-time environment (\<open>import.meta.env\<close>) and the two constants both service
  modules derive from it.
\<close>

record env =
  VITE_API_URL :: "string option"
  VITE_SUPABASE_ANON_KEY :: "string option"

definition API_BASE_URL :: "env \<Rightarrow> string" where
  "API_BASE_URL e =
     (case VITE_API_URL e of
        Some u \<Rightarrow> if u \<noteq> [] then u else ''https://iitnfvqesrrninypeuvx.supabase.co/functions/v1''
      | None \<Rightarrow> ''https://iitnfvqesrrninypeuvx.supabase.co/functions/v1'')"

definition SUPABASE_ANON_KEY :: "env \<Rightarrow> string" where
  "SUPABASE_ANON_KEY e = (case VITE_SUPABASE_ANON_KEY e of Some k \<Rightarrow> k | None \<Rightarrow> [])"

datatype form_value = FormFile File | FormText string

datatype request_body = NoBody | TextBody string | FormData "(string \<times> form_value) list"

record request =
  url :: string
  http_method :: string
  headers :: "(string \<times> string) list"
  body :: request_body

text \<open>
  A response is its status code and its body as \<open>response.json()\<close> reads it: the parsed
  value, or, for a body that is not JSON, the message of the \<open>SyntaxError\<close> the promise
  is rejected with. \<open>response.ok\<close> is defined by the Fetch standard as a status from
  200 to 299. \<open>fetch\<close> itself either resolves with a response or is rejected (no
  network, DNS failure, CORS); the whole network is the parameter
  \<open>fetch :: request \<Rightarrow> fetch_outcome\<close> of every service function.
\<close>

record response =
  status :: nat
  json :: "string + jsval"

definition ok :: "response \<Rightarrow> bool" where
  "ok r \<longleftrightarrow> 200 \<le> status r \<and> status r \<le> 299"

datatype fetch_outcome = Rejected string | Responded response

text \<open>\<open>await response.json()\<close> and \<open>await response.json().catch(() => fallback)\<close>\<close>

definition await_json :: "response \<Rightarrow> thrown + jsval" where
  "await_json r = (case json r of Inl m \<Rightarrow> Inl (JsonSyntaxError m) | Inr v \<Rightarrow> Inr v)"

definition json_catch :: "response \<Rightarrow> jsval \<Rightarrow> jsval" where
  "json_catch r fallback = (case json r of Inl m \<Rightarrow> fallback | Inr v \<Rightarrow> v)"

text \<open>\<open>JSON.stringify(data)\<close> as a request body.\<close>

definition json_request_body :: "jsval \<Rightarrow> request_body" where
  "json_request_body data = (case JSON_stringify data of None \<Rightarrow> NoBody | Some t \<Rightarrow> TextBody t)"

text \<open>
  \<open>new URLSearchParams(record).toString()\<close>: the form-urlencoded serialisation. Letters,
  digits and \<open>*-._\<close> stay, a space becomes \<open>+\<close>, every other byte becomes \<open>%XX\<close>.
\<close>

definition urlencodeChar :: "char \<Rightarrow> string" where
  "urlencodeChar c =
     (if c \<in> set ''ABCDEFGHIJKLMNOPQRSTUVWXYZabcdefghijklmnopqrstuvwxyz0123456789*-._'' then [c]
      else if c = CHR '' '' then ''+''
      else [CHR ''%'', ''0123456789ABCDEF'' ! (of_char c div 16), ''0123456789ABCDEF'' ! (of_char c mod 16)])"

definition URLSearchParams_toString :: "(string \<times> string) list \<Rightarrow> string" where
  "URLSearchParams_toString ps =
     join ''&'' (map (\<lambda>(k, v). concat (map urlencodeChar k) @ ''='' @ concat (map urlencodeChar v)) ps)"

section \<open>The main API service (services/api.ts)\<close>

definition getHeaders :: "env \<Rightarrow> (string \<times> string) list" where
  "getHeaders e =
     [(''Content-Type'', ''application/json'')]
     @ (if SUPABASE_ANON_KEY e \<noteq> []
        then [(''apikey'', SUPABASE_ANON_KEY e), (''Authorization'', ''Bearer '' @ SUPABASE_ANON_KEY e)]
        else [])"

text \<open>The headers of the two upload functions: no content type, the key when there is one.\<close>

definition uploadHeaders :: "env \<Rightarrow> (string \<times> string) list" where
  "uploadHeaders e =
     (if SUPABASE_ANON_KEY e \<noteq> []
      then [(''apikey'', SUPABASE_ANON_KEY e), (''Authorization'', ''Bearer '' @ SUPABASE_ANON_KEY e)]
      else [])"

text \<open>
  Every function of \<open>api.ts\<close> repeats the same statements after its \<open>fetch\<close>. The
  block under \<open>if (!response.ok)\<close>:
  \<^verbatim>\<open>
  const errorData = await response.json().catch(() => ({}));
  throw new Error(errorData.error || errorData.message || `HTTP error! status: ${response.status}`);
  \<close>
\<close>

definition api_failure :: "response \<Rightarrow> thrown" where
  "api_failure r =
     (let errorData = json_catch r (JObj []) in
      case getProp errorData ''error'' of
        Inl t \<Rightarrow> t
      | Inr e \<Rightarrow>
          if truthy e then Error (toString e)
          else (case getProp errorData ''message'' of
                  Inl t \<Rightarrow> t
                | Inr m \<Rightarrow>
                    if truthy m then Error (toString m)
                    else Error (''HTTP error! status: '' @ decimal (status r))))"

text \<open>
  The message of the error that a failed request ends in, as the properties below speak
  of it: the \<open>error\<close> member of the body when truthy, else the \<open>message\<close> member
  when truthy, else the status line; a body that is not JSON counts as \<open>{}\<close>.
\<close>

definition http_error_message :: "response \<Rightarrow> string" where
  "http_error_message r =
     (let b = json_catch r (JObj []) in
      if truthy (own b ''error'') then toString (own b ''error'')
      else if truthy (own b ''message'') then toString (own b ''message'')
      else ''HTTP error! status: '' @ decimal (status r))"

text \<open>
  The statements after it:
  \<^verbatim>\<open>
  const result = await response.json();
  if (!result.data) { throw new Error('Invalid response: missing data'); }
  return result.data;
  \<close>
  \<open>listMemoryRecords\<close> alone ends with \<open>return result\<close>; \<open>whole\<close> selects that.
\<close>

definition api_success :: "bool \<Rightarrow> response \<Rightarrow> thrown + jsval" where
  "api_success whole r =
     thenE (await_json r) (\<lambda>result.
       thenE (getProp result ''data'') (\<lambda>d.
         if \<not> truthy d then Inl (Error ''Invalid response: missing data'')
         else Inr (if whole then result else d)))"

definition api_result :: "bool \<Rightarrow> fetch_outcome \<Rightarrow> thrown + jsval" where
  "api_result whole outcome =
     (case outcome of
        Rejected m \<Rightarrow> Inl (FetchFailed m)
      | Responded r \<Rightarrow> if \<not> ok r then Inl (api_failure r) else api_success whole r)"

definition createTruthRecord_request :: "env \<Rightarrow> jsval \<Rightarrow> request" where
  "createTruthRecord_request e data =
     \<lparr> url = API_BASE_URL e @ ''/create-record'', http_method = ''POST'', headers = getHeaders e,
       body = json_request_body data \<rparr>"

definition createTruthRecord :: "env \<Rightarrow> (request \<Rightarrow> fetch_outcome) \<Rightarrow> jsval \<Rightarrow> thrown + jsval" where
  "createTruthRecord e fetch data = api_result False (fetch (createTruthRecord_request e data))"

definition getTruthRecord_request :: "env \<Rightarrow> string \<Rightarrow> request" where
  "getTruthRecord_request e recordId =
     \<lparr> url = API_BASE_URL e @ ''/get-record?id='' @ recordId, http_method = ''GET'',
       headers = getHeaders e, body = NoBody \<rparr>"

definition getTruthRecord :: "env \<Rightarrow> (request \<Rightarrow> fetch_outcome) \<Rightarrow> string \<Rightarrow> thrown + jsval" where
  "getTruthRecord e fetch recordId = api_result False (fetch (getTruthRecord_request e recordId))"

definition verifyRecord_request :: "env \<Rightarrow> string \<Rightarrow> request" where
  "verifyRecord_request e recordId =
     \<lparr> url = API_BASE_URL e @ ''/verify-record?id='' @ recordId, http_method = ''GET'',
       headers = getHeaders e, body = NoBody \<rparr>"

definition verifyRecord :: "env \<Rightarrow> (request \<Rightarrow> fetch_outcome) \<Rightarrow> string \<Rightarrow> thrown + jsval" where
  "verifyRecord e fetch recordId = api_result False (fetch (verifyRecord_request e recordId))"

definition getPublicKey_request :: "env \<Rightarrow> request" where
  "getPublicKey_request e =
     \<lparr> url = API_BASE_URL e @ ''/public-key'', http_method = ''GET'', headers = getHeaders e,
       body = NoBody \<rparr>"

definition getPublicKey :: "env \<Rightarrow> (request \<Rightarrow> fetch_outcome) \<Rightarrow> thrown + jsval" where
  "getPublicKey e fetch = api_result False (fetch (getPublicKey_request e))"

definition getVerificationBundle_request :: "env \<Rightarrow> string \<Rightarrow> request" where
  "getVerificationBundle_request e recordId =
     \<lparr> url = API_BASE_URL e @ ''/verification-bundle?id='' @ recordId, http_method = ''GET'',
       headers = getHeaders e, body = NoBody \<rparr>"

definition getVerificationBundle :: "env \<Rightarrow> (request \<Rightarrow> fetch_outcome) \<Rightarrow> string \<Rightarrow> thrown + jsval" where
  "getVerificationBundle e fetch recordId =
     api_result False (fetch (getVerificationBundle_request e recordId))"

definition createMemoryRecord_request :: "env \<Rightarrow> jsval \<Rightarrow> request" where
  "createMemoryRecord_request e data =
     \<lparr> url = API_BASE_URL e @ ''/create-memory'', http_method = ''POST'', headers = getHeaders e,
       body = json_request_body data \<rparr>"

definition createMemoryRecord :: "env \<Rightarrow> (request \<Rightarrow> fetch_outcome) \<Rightarrow> jsval \<Rightarrow> thrown + jsval" where
  "createMemoryRecord e fetch data = api_result False (fetch (createMemoryRecord_request e data))"

definition getMemoryRecord_request :: "env \<Rightarrow> string \<Rightarrow> request" where
  "getMemoryRecord_request e memoryId =
     \<lparr> url = API_BASE_URL e @ ''/get-memory?id='' @ memoryId, http_method = ''GET'',
       headers = getHeaders e, body = NoBody \<rparr>"

definition getMemoryRecord :: "env \<Rightarrow> (request \<Rightarrow> fetch_outcome) \<Rightarrow> string \<Rightarrow> thrown + jsval" where
  "getMemoryRecord e fetch memoryId = api_result False (fetch (getMemoryRecord_request e memoryId))"

text \<open>\<open>page\<close> and \<open>limit\<close> are counts (1 and 20 when the caller leaves them out).\<close>

definition listMemoryRecords_request :: "env \<Rightarrow> string \<Rightarrow> nat \<Rightarrow> nat \<Rightarrow> request" where
  "listMemoryRecords_request e ownerId page limit =
     \<lparr> url = API_BASE_URL e @ ''/list-memories?''
             @ URLSearchParams_toString
                 [(''ownerId'', ownerId), (''page'', decimal page), (''limit'', decimal limit)],
       http_method = ''GET'', headers = getHeaders e, body = NoBody \<rparr>"

definition listMemoryRecords ::
  "env \<Rightarrow> (request \<Rightarrow> fetch_outcome) \<Rightarrow> string \<Rightarrow> nat \<Rightarrow> nat \<Rightarrow> thrown + jsval" where
  "listMemoryRecords e fetch ownerId page limit =
     api_result True (fetch (listMemoryRecords_request e ownerId page limit))"

definition updateMemoryRecord_request :: "env \<Rightarrow> string \<Rightarrow> jsval \<Rightarrow> request" where
  "updateMemoryRecord_request e ident data =
     \<lparr> url = API_BASE_URL e @ ''/update-memory?id='' @ ident, http_method = ''PUT'',
       headers = getHeaders e, body = json_request_body data \<rparr>"

definition updateMemoryRecord ::
  "env \<Rightarrow> (request \<Rightarrow> fetch_outcome) \<Rightarrow> string \<Rightarrow> jsval \<Rightarrow> thrown + jsval" where
  "updateMemoryRecord e fetch ident data =
     api_result False (fetch (updateMemoryRecord_request e ident data))"

definition uploadFile_request :: "env \<Rightarrow> File \<Rightarrow> string \<Rightarrow> string \<Rightarrow> request" where
  "uploadFile_request e f ownerId recordId =
     \<lparr> url = API_BASE_URL e @ ''/upload'', http_method = ''POST'', headers = uploadHeaders e,
       body = FormData [(''file'', FormFile f), (''ownerId'', FormText ownerId),
                        (''recordId'', FormText recordId)] \<rparr>"

definition uploadFile ::
  "env \<Rightarrow> (request \<Rightarrow> fetch_outcome) \<Rightarrow> File \<Rightarrow> string \<Rightarrow> string \<Rightarrow> thrown + jsval" where
  "uploadFile e fetch f ownerId recordId =
     api_result False (fetch (uploadFile_request e f ownerId recordId))"

definition uploadMultipleFiles_request :: "env \<Rightarrow> File list \<Rightarrow> string \<Rightarrow> string \<Rightarrow> request" where
  "uploadMultipleFiles_request e fs ownerId recordId =
     \<lparr> url = API_BASE_URL e @ ''/upload-multiple'', http_method = ''POST'', headers = uploadHeaders e,
       body = FormData (map (\<lambda>f. (''files'', FormFile f)) fs
                        @ [(''ownerId'', FormText ownerId), (''recordId'', FormText recordId)]) \<rparr>"

definition uploadMultipleFiles ::
  "env \<Rightarrow> (request \<Rightarrow> fetch_outcome) \<Rightarrow> File list \<Rightarrow> string \<Rightarrow> string \<Rightarrow> thrown + jsval" where
  "uploadMultipleFiles e fetch fs ownerId recordId =
     api_result False (fetch (uploadMultipleFiles_request e fs ownerId recordId))"

text \<open>
  The exported functions of \<open>api.ts\<close> as one family: a call names the function and its
  arguments, \<open>api\<close> runs it, \<open>request_of\<close> is the request it sends and \<open>payload\<close>
  is where the data sits in what it returns.
\<close>

datatype api_call =
    CreateTruthRecord jsval
  | GetTruthRecord string
  | VerifyRecord string
  | GetPublicKey
  | GetVerificationBundle string
  | CreateMemoryRecord jsval
  | GetMemoryRecord string
  | ListMemoryRecords string nat nat
  | UpdateMemoryRecord string jsval
  | UploadFile File string string
  | UploadMultipleFiles "File list" string string

fun api :: "env \<Rightarrow> (request \<Rightarrow> fetch_outcome) \<Rightarrow> api_call \<Rightarrow> thrown + jsval" where
  "api e fetch (CreateTruthRecord data) = createTruthRecord e fetch data"
| "api e fetch (GetTruthRecord recordId) = getTruthRecord e fetch recordId"
| "api e fetch (VerifyRecord recordId) = verifyRecord e fetch recordId"
| "api e fetch GetPublicKey = getPublicKey e fetch"
| "api e fetch (GetVerificationBundle recordId) = getVerificationBundle e fetch recordId"
| "api e fetch (CreateMemoryRecord data) = createMemoryRecord e fetch data"
| "api e fetch (GetMemoryRecord memoryId) = getMemoryRecord e fetch memoryId"
| "api e fetch (ListMemoryRecords ownerId page limit) = listMemoryRecords e fetch ownerId page limit"
| "api e fetch (UpdateMemoryRecord ident data) = updateMemoryRecord e fetch ident data"
| "api e fetch (UploadFile f ownerId recordId) = uploadFile e fetch f ownerId recordId"
| "api e fetch (UploadMultipleFiles fs ownerId recordId) = uploadMultipleFiles e fetch fs ownerId recordId"

fun request_of :: "env \<Rightarrow> api_call \<Rightarrow> request" where
  "request_of e (CreateTruthRecord data) = createTruthRecord_request e data"
| "request_of e (GetTruthRecord recordId) = getTruthRecord_request e recordId"
| "request_of e (VerifyRecord recordId) = verifyRecord_request e recordId"
| "request_of e GetPublicKey = getPublicKey_request e"
| "request_of e (GetVerificationBundle recordId) = getVerificationBundle_request e recordId"
| "request_of e (CreateMemoryRecord data) = createMemoryRecord_request e data"
| "request_of e (GetMemoryRecord memoryId) = getMemoryRecord_request e memoryId"
| "request_of e (ListMemoryRecords ownerId page limit) = listMemoryRecords_request e ownerId page limit"
| "request_of e (UpdateMemoryRecord ident data) = updateMemoryRecord_request e ident data"
| "request_of e (UploadFile f ownerId recordId) = uploadFile_request e f ownerId recordId"
| "request_of e (UploadMultipleFiles fs ownerId recordId) = uploadMultipleFiles_request e fs ownerId recordId"

fun returns_whole :: "api_call \<Rightarrow> bool" where
  "returns_whole (ListMemoryRecords ownerId page limit) = True"
| "returns_whole c = False"

definition payload :: "api_call \<Rightarrow> jsval \<Rightarrow> thrown + jsval" where
  "payload c returned = (if returns_whole c then getProp returned ''data'' else Inr returned)"

section \<open>The edge API service (services/api-edge.ts)\<close>

text \<open>
  \<open>getTruthRecord\<close> of \<open>api-edge.ts\<close>. Its \<open>getHeaders\<close> is the same as in
  \<open>api.ts\<close>. A 404 is answered before the body is read; for any other failure the
  fallback of the \<open>catch\<close> is an object that already has an \<open>error\<close> field.
\<close>

definition edge_getTruthRecord_request :: "env \<Rightarrow> string \<Rightarrow> request" where
  "edge_getTruthRecord_request e ident =
     \<lparr> url = API_BASE_URL e @ ''/get-record?id='' @ ident, http_method = ''GET'',
       headers = getHeaders e, body = NoBody \<rparr>"

definition edge_getTruthRecord ::
  "env \<Rightarrow> (request \<Rightarrow> fetch_outcome) \<Rightarrow> string \<Rightarrow> thrown + jsval" where
  "edge_getTruthRecord e fetch ident =
     (case fetch (edge_getTruthRecord_request e ident) of
        Rejected m \<Rightarrow> Inl (FetchFailed m)
      | Responded r \<Rightarrow>
          if \<not> ok r then
            (if status r = 404 then Inl (Error ''Record not found'')
             else
               (let error = json_catch r (JObj [(''error'', JStr ''Unknown error'')]) in
                case getProp error ''error'' of
                  Inl t \<Rightarrow> Inl t
                | Inr m \<Rightarrow>
                    Inl (Error (toString (or_else m (JStr (''HTTP '' @ decimal (status r))))))))
          else thenE (await_json r) (\<lambda>result. getProp result ''data''))"

section \<open>The verification page (pages/VerifyRecord.tsx)\<close>

text \<open>
  The object handed to \<open>setVerificationResult\<close>, and the part of the page's state that
  \<open>handleVerify\<close> writes. \<open>recordId\<close> comes from the route and may be missing.
\<close>

record verification_result =
  isValid :: jsval
  integrityValid :: jsval
  signatureValid :: jsval
  timestampValid :: jsval
  message :: jsval

record verify_state =
  isVerifying :: bool
  verificationResult :: "verification_result option"

text \<open>The body of the \<open>try\<close> block: the call and the five property reads.\<close>

definition handleVerify_try ::
  "env \<Rightarrow> (request \<Rightarrow> fetch_outcome) \<Rightarrow> string \<Rightarrow> thrown + verification_result" where
  "handleVerify_try e fetch recordId =
     thenE (verifyRecord e fetch recordId) (\<lambda>result.
     thenE (getProp result ''isValid'') (\<lambda>v1.
     thenE (getProp result ''integrityValid'') (\<lambda>v2.
     thenE (getProp result ''signatureValid'') (\<lambda>v3.
     thenE (getProp result ''timestampValid'') (\<lambda>v4.
     thenE (getProp result ''message'') (\<lambda>v5.
       Inr \<lparr> isValid = v1, integrityValid = v2, signatureValid = v3, timestampValid = v4,
             message = v5 \<rparr>))))))"

definition handleVerify ::
  "env \<Rightarrow> (request \<Rightarrow> fetch_outcome) \<Rightarrow> string option \<Rightarrow> verify_state \<Rightarrow> verify_state" where
  "handleVerify e fetch recordId st =
     (case recordId of
        None \<Rightarrow> st
      | Some rid \<Rightarrow>
          if rid = [] then st
          else
            (case handleVerify_try e fetch rid of
               Inr res \<Rightarrow> \<lparr> isVerifying = False, verificationResult = Some res \<rparr>
             | Inl err \<Rightarrow>
                 \<lparr> isVerifying = False,
                   verificationResult = Some
                     \<lparr> isValid = JBool False,
                       integrityValid = JBool False,
                       signatureValid = JBool False,
                       timestampValid = JNull,
                       message = JStr (if instanceofError err then message_of err
                                       else ''Verification failed'') \<rparr> \<rparr>))"

subsection \<open>What the page shows for independent verification\<close>

text \<open>
  \<open>a && b\<close> inside \<open>...( )\<close> of an object literal, for the three uses on the page: a
  falsy left operand spreads to nothing, a truthy one spreads the object on the right.
  An object literal \<open>{ k1: record.k1, ..., kn: record.kn }\<close> reads the properties in
  order and keeps every key, also when the value is \<open>undefined\<close>.
\<close>

fun pick :: "jsval \<Rightarrow> string list \<Rightarrow> thrown + (string \<times> jsval) list" where
  "pick r [] = Inr []"
| "pick r (k # ks) =
     thenE (getProp r k) (\<lambda>v. thenE (pick r ks) (\<lambda>rest. Inr ((k, v) # rest)))"

text \<open>
  Step 1 of the instructions for skeptics: the object built from the record and its
  rendering with \<open>JSON.stringify(obj, null, 2)\<close>.
\<close>

definition sealableContent :: "jsval \<Rightarrow> thrown + jsval" where
  "sealableContent rec =
     thenE (pick rec [''id'', ''ownerId'', ''title'', ''content'', ''eventTimestamp''])
       (\<lambda>fields.
     thenE (getProp rec ''location'') (\<lambda>location.
       Inr (JObj (fields @ (if truthy location then [(''location'', location)] else [])))))"

definition sealableContentDisplay :: "jsval \<Rightarrow> thrown + string option" where
  "sealableContentDisplay rec =
     thenE (sealableContent rec) (\<lambda>obj. Inr (JSON_stringify_2 obj))"

text \<open>
  How the page obtains the bundle when it loads:
  \<open>getVerificationBundle(recordId).catch(() => null)\<close>. Whatever the service function
  returns becomes the \<open>verificationBundle\<close> state; a failure leaves it \<open>null\<close>.
\<close>

definition loadVerificationBundle ::
  "env \<Rightarrow> (request \<Rightarrow> fetch_outcome) \<Rightarrow> string \<Rightarrow> jsval" where
  "loadVerificationBundle e fetch recordId =
     (case getVerificationBundle e fetch recordId of
        Inr bundleData \<Rightarrow> bundleData
      | Inl err \<Rightarrow> JNull)"

text \<open>
  The export section: the bundle fetched from the service when there is one, else an
  object assembled from the record and the public key.
\<close>

definition exportFallback :: "jsval \<Rightarrow> jsval \<Rightarrow> thrown + jsval" where
  "exportFallback rec publicKey =
     thenE (pick rec [''id'', ''ownerId'', ''title'', ''content'', ''eventTimestamp'',
                          ''sealedTimestamp'', ''contentHash'', ''signature'', ''version'',
                          ''status'', ''sealingVersion''])
       (\<lambda>fields.
     thenE (getProp rec ''location'') (\<lambda>location.
     thenE (if truthy publicKey
            then thenE (getProp publicKey ''publicKeyPEM'') (\<lambda>pem. Inr [(''publicKey'', pem)])
            else Inr [])
       (\<lambda>keyPart.
     thenE (getProp rec ''timestampProof'') (\<lambda>timestampProof.
       Inr (JObj (fields
                  @ (if truthy location then [(''location'', location)] else [])
                  @ keyPart
                  @ (if truthy timestampProof then [(''timestampProof'', timestampProof)]
                     else [])))))))"

definition exportDisplay :: "jsval \<Rightarrow> jsval \<Rightarrow> jsval \<Rightarrow> thrown + string option" where
  "exportDisplay verificationBundle rec publicKey =
     (if truthy verificationBundle then Inr (JSON_stringify_2 verificationBundle)
      else thenE (exportFallback rec publicKey) (\<lambda>obj. Inr (JSON_stringify_2 obj)))"

text \<open>The names of the properties that \<open>JSON.stringify\<close> writes for an object.\<close>

definition written_keys :: "jsval \<Rightarrow> string list" where
  "written_keys v =
     (case v of JObj kvs \<Rightarrow> map fst (filter (\<lambda>kv. snd kv \<noteq> JUndefined) kvs) | _ \<Rightarrow> [])"

section \<open>The wire format of a verification bundle\<close>

text \<open>
  An optional member of a JSON object: no property when it is absent.
\<close>

definition optional_member :: "string \<Rightarrow> 'a option \<Rightarrow> ('a \<Rightarrow> jsval) \<Rightarrow> (string \<times> jsval) list" where
  "optional_member k m enc = (case m of None \<Rightarrow> [] | Some x \<Rightarrow> [(k, enc x)])"

text \<open>
  The wire format of the specification, in its words: the members it lists, the two it
  marks optional, and \<open>publicKey\<close> as an object with exactly \<open>pem\<close>, \<open>version\<close>,
  \<open>algorithm\<close> and \<open>curve\<close>. A document has the format when it has every required
  member, no member outside the list, and such a \<open>publicKey\<close>.
\<close>

definition spec_required_members :: "string list" where
  "spec_required_members =
     [''id'', ''ownerId'', ''title'', ''content'', ''eventTimestamp'', ''sealedTimestamp'',
      ''contentHash'', ''signature'', ''version'', ''status'', ''sealingVersion'',
      ''publicKeyVersion'', ''publicKey'', ''verificationInstructions'', ''guarantees'',
      ''limitations'']"

definition spec_optional_members :: "string list" where
  "spec_optional_members = [''location'', ''timestampProof'']"

definition spec_wire_format :: "jsval \<Rightarrow> bool" where
  "spec_wire_format v \<longleftrightarrow>
     list_all (\<lambda>k. k \<in> set (written_keys v)) spec_required_members
     \<and> list_all (\<lambda>k. k \<in> set (spec_required_members @ spec_optional_members)) (written_keys v)
     \<and> set (written_keys (own v ''publicKey'')) = set [''pem'', ''version'', ''algorithm'', ''curve'']"

section \<open>The canonical form of the specification\<close>

text \<open>
  The canonical form in the words of the specification and of
  \<open>VERIFICATION_EXPLANATION.md\<close>: only the members that are defined, the keys of every
  object sorted, no whitespace between tokens. It is what the displayed JSON is compared
  with.
\<close>

fun sortKeys :: "jsval \<Rightarrow> jsval" where
  "sortKeys (JArr xs) = JArr (map sortKeys xs)"
| "sortKeys (JObj kvs) = JObj (sort_key fst (map (\<lambda>kv. (fst kv, sortKeys (snd kv))) kvs))"
| "sortKeys v = v"

definition canonicalJSON :: "jsval \<Rightarrow> string option" where
  "canonicalJSON v = JSON_stringify (sortKeys v)"

text \<open>
  The record of the specification's concrete scenario, completed to a
  \<open>TruthRecordResponse\<close>, and the public key that goes with it; both serve as concrete
  inputs below.
\<close>

definition record_r1 :: jsval where
  "record_r1 =
     JObj [(''id'', JStr ''r1''), (''ownerId'', JStr ''u1''), (''title'', JStr ''T''),
           (''content'', JStr ''hello''), (''eventTimestamp'', JStr ''2024-01-15T14:30:00.000Z''),
           (''sealedTimestamp'', JStr ''2024-01-15T15:00:00.000Z''),
           (''contentHash'', JStr ''a665a45920422f9d417e4867efdc4fb8a04a1f3fff1fa07e998e86f7f7a27ae3''),
           (''signature'', JStr ''c2ln''), (''version'', JNum ''1''), (''status'', JStr ''SEALED''),
           (''sealingVersion'', JStr ''1.0.0''), (''publicKeyVersion'', JStr ''v1'')]"

definition publicKey_v1 :: jsval where
  "publicKey_v1 =
     JObj [(''publicKeyPEM'', JStr ''PEM''), (''version'', JStr ''v1''),
           (''algorithm'', JStr ''ECDSA''), (''curve'', JStr ''P-256''),
           (''createdAt'', JStr ''2024-01-01T00:00:00.000Z'')]"

text \<open>
  A bundle as the interface \<open>VerificationBundle\<close> of \<open>types/index.ts\<close> declares it,
  member by member, with the optional members left out: the document a service that
  follows the declared type sends for the record above.
\<close>

definition bundle_b1 :: jsval where
  "bundle_b1 =
     JObj [(''recordId'', JStr ''r1''),
           (''sealedTimestamp'', JStr ''2024-01-15T15:00:00.000Z''),
           (''eventTimestamp'', JStr ''2024-01-15T14:30:00.000Z''),
           (''sealingVersion'', JStr ''1.0.0''),
           (''publicKeyVersion'', JStr ''v1''),
           (''sealableContent'',
              JObj [(''id'', JStr ''r1''), (''ownerId'', JStr ''u1''), (''title'', JStr ''T''),
                    (''content'', JStr ''hello''),
                    (''eventTimestamp'', JStr ''2024-01-15T14:30:00.000Z'')]),
           (''contentHash'', JStr ''a665a45920422f9d417e4867efdc4fb8a04a1f3fff1fa07e998e86f7f7a27ae3''),
           (''signature'', JStr ''c2ln''),
           (''publicKey'',
              JObj [(''pem'', JStr ''PEM''), (''version'', JStr ''v1''),
                    (''algorithm'', JStr ''ECDSA''), (''curve'', JStr ''P-256''),
                    (''createdAt'', JStr ''2024-01-01T00:00:00.000Z'')]),
           (''verificationInstructions'',
              JObj [(''hashVerification'',
                       JObj [(''description'', JStr ''hash''), (''steps'', JArr [])]),
                    (''signatureVerification'',
                       JObj [(''description'', JStr ''signature''), (''steps'', JArr [])])]),
           (''guarantees'',
              JObj [(''integrity'', JStr ''i''), (''authenticity'', JStr ''a''),
                    (''timestamp'', JStr ''t'')]),
           (''limitations'',
              JObj [(''contentTruth'', JStr ''c''), (''authorship'', JStr ''a'')])]"

section \<open>The record creation form (components/CreateRecordForm.tsx)\<close>

text \<open>
  The form counts and trims text, so its strings are what JavaScript counts: lists of
  UTF-16 code units. \<open>String.prototype.trim\<close> removes the white space and line
  terminator code units of ECMAScript from both ends.
\<close>

type_synonym ustring = "16 word list"

definition isWhiteSpace :: "16 word \<Rightarrow> bool" where
  "isWhiteSpace c \<longleftrightarrow>
     c = 0x0009 \<or> c = 0x000A \<or> c = 0x000B \<or> c = 0x000C \<or> c = 0x000D \<or> c = 0x0020
     \<or> c = 0x00A0 \<or> c = 0x1680 \<or> (0x2000 \<le> c \<and> c \<le> 0x200A) \<or> c = 0x2028 \<or> c = 0x2029
     \<or> c = 0x202F \<or> c = 0x205F \<or> c = 0x3000 \<or> c = 0xFEFF"

definition trim :: "ustring \<Rightarrow> ustring" where
  "trim s = rev (dropWhile isWhiteSpace (rev (dropWhile isWhiteSpace s)))"

text \<open>\<open>s.split(',')\<close>: the pieces between the separators; the empty string gives one empty piece.\<close>

fun split :: "'a \<Rightarrow> 'a list \<Rightarrow> 'a list list" where
  "split sep [] = [[]]"
| "split sep (c # cs) =
     (if c = sep then [] # split sep cs
      else (case split sep cs of [] \<Rightarrow> [[c]] | p # ps \<Rightarrow> (c # p) # ps))"

text \<open>The \<open>formData\<close> state of the component and the errors that \<open>validate\<close> records.\<close>

record form_state =
  form_title :: ustring
  form_content :: ustring
  form_eventTimestamp :: ustring
  form_description :: ustring
  form_tags :: ustring

record form_errors =
  title_error :: "string option"
  content_error :: "string option"
  eventTimestamp_error :: "string option"

record attachment =
  att_filename :: string
  att_mimeType :: string
  att_size :: nat
  att_hash :: string

text \<open>\<open>CreateRecordFormData\<close>, the argument of \<open>onSubmit\<close>.\<close>

record CreateRecordFormData =
  title :: ustring
  content :: ustring
  eventTimestamp :: ustring
  description :: "ustring option"
  tags :: "ustring list option"
  attachmentMetadata :: "attachment list option"

text \<open>
  \<open>validate\<close> returns the errors it has set and whether there is none. The emptiness
  tests are on the trimmed text, the length tests on the text as typed.
\<close>

definition validate :: "form_state \<Rightarrow> form_errors \<times> bool" where
  "validate formData =
     (let newErrors =
        \<lparr> title_error =
            (if trim (form_title formData) = [] then Some ''Title is required''
             else if length (form_title formData) > 500
               then Some ''Title must be 500 characters or less''
             else None),
          content_error =
            (if trim (form_content formData) = [] then Some ''Content is required''
             else if length (form_content formData) > 10000000
               then Some ''Content must be 10,000,000 characters or less''
             else None),
          eventTimestamp_error =
            (if form_eventTimestamp formData = [] then Some ''Event timestamp is required''
             else None) \<rparr>
      in (newErrors,
          title_error newErrors = None \<and> content_error newErrors = None
          \<and> eventTimestamp_error newErrors = None))"

text \<open>
  The effects of \<open>handleSubmit\<close>: the errors shown, the calls of \<open>onSubmit\<close>, and what
  escapes the handler. \<open>new Date(s).toISOString()\<close> is the parameter \<open>toISOString\<close>;
  it is \<open>None\<close> where the text is not a date, and \<open>toISOString\<close> then throws a
  \<open>RangeError\<close>.
\<close>

record submit_effects =
  errors :: form_errors
  onSubmit_calls :: "CreateRecordFormData list"
  escaped :: "thrown option"

definition handleSubmit ::
  "(ustring \<Rightarrow> ustring option) \<Rightarrow> form_state \<Rightarrow> FileWithHash list \<Rightarrow> submit_effects" where
  "handleSubmit toISOString formData files =
     (case validate formData of
        (newErrors, False) \<Rightarrow> \<lparr> errors = newErrors, onSubmit_calls = [], escaped = None \<rparr>
      | (newErrors, True) \<Rightarrow>
          (case toISOString (form_eventTimestamp formData) of
             None \<Rightarrow>
               \<lparr> errors = newErrors, onSubmit_calls = [],
                 escaped = Some (RangeError ''Invalid time value'') \<rparr>
           | Some isoText \<Rightarrow>
               (let tagList =
                      (if form_tags formData \<noteq> []
                       then filter (\<lambda>t. t \<noteq> []) (map trim (split 0x002C (form_tags formData)))
                       else []);
                    attachments =
                      (if length files > 0
                       then Some (map (\<lambda>f. \<lparr> att_filename = file_name (file_of f),
                                              att_mimeType = file_type (file_of f),
                                              att_size = file_size (file_of f),
                                              att_hash = hash f \<rparr>) files)
                       else None)
                in \<lparr> errors = newErrors,
                     onSubmit_calls =
                       [\<lparr> title = trim (form_title formData),
                          content = trim (form_content formData),
                          eventTimestamp = isoText,
                          description =
                            (if trim (form_description formData) \<noteq> []
                             then Some (trim (form_description formData)) else None),
                          tags = (if length tagList > 0 then Some tagList else None),
                          attachmentMetadata = attachments \<rparr>],
                     escaped = None \<rparr>)))"

section \<open>The sealing and verification engine of the backend\<close>

text \<open>
  The engine runs behind the \<open>create-record\<close> and \<open>verify-record\<close> functions that the
  services call. The frontend holds only those calls, so the definitions of this section
  follow sections 3 and 4 of the specification. The hash function, the signature scheme
  and the time authority are primitives outside the engine and are its parameters.
\<close>

text \<open>
  Modelled from the spec: the error kinds of sealing (section 7); the backend code that
  raises them is not among the frontend sources.
\<close>

datatype seal_error = InvalidContent | AlreadySealed | SigningUnavailable

text \<open>
  Modelled from the spec: the two states of the Sealing Orchestrator (section 4.5), whose
  code is in the backend.
\<close>

datatype draft_state = Drafting | Sealed

text \<open>
  Modelled from the spec: the timestamp format of the canonical form (section 3, rule 4),
  fixed-format ISO-8601 with milliseconds and a literal \<open>Z\<close>, as in
  \<open>2024-01-15T14:30:00.000Z\<close>; the backend's check is not among the sources.
\<close>

definition isIsoTimestamp :: "string \<Rightarrow> bool" where
  "isIsoTimestamp s \<longleftrightarrow>
     list_all2 (\<lambda>p c. if p = CHR ''d'' then c \<in> set ''0123456789'' else c = p)
       ''dddd-dd-ddTdd:dd:dd.dddZ'' s"

text \<open>
  Modelled from the spec: malformed content has a non-finite number (section 4.1); the
  backend's check is not among the sources.
\<close>

fun finiteNumbers :: "jsval \<Rightarrow> bool" where
  "finiteNumbers (JNum n) = (n \<noteq> ''NaN'' \<and> n \<noteq> ''Infinity'' \<and> n \<noteq> ''-Infinity'')"
| "finiteNumbers (JArr xs) = list_all finiteNumbers xs"
| "finiteNumbers (JObj kvs) = list_all (\<lambda>kv. finiteNumbers (snd kv)) kvs"
| "finiteNumbers v = True"

definition isString :: "jsval \<Rightarrow> bool" where
  "isString v = (case v of JStr s \<Rightarrow> True | _ \<Rightarrow> False)"

text \<open>
  Modelled from the spec: SealableContent (section 3), the part of a record that is
  hashed: identifier, owner, title, body, event timestamp and, when defined, the
  geolocation, and nothing else. The backend's selection is not among the sources.
\<close>

definition sealableFields :: "jsval \<Rightarrow> jsval" where
  "sealableFields c =
     JObj (map (\<lambda>k. (k, own c k)) [''id'', ''ownerId'', ''title'', ''content'', ''eventTimestamp'']
           @ (if own c ''location'' = JUndefined \<or> own c ''location'' = JNull then []
              else [(''location'', own c ''location'')]))"

text \<open>
  Modelled from the spec: the Canonicalizer (section 4.1) of the backend, not among the
  sources. Content that lacks a required field, has an invalid timestamp or a non-finite
  number is rejected with \<open>InvalidContent\<close>; otherwise the canonical form is the
  serialisation of the sealable fields with sorted keys and no whitespace.
\<close>

definition canonicalize :: "jsval \<Rightarrow> seal_error + string" where
  "canonicalize c =
     (if list_all (\<lambda>k. isString (own c k)) [''id'', ''ownerId'', ''title'', ''content'', ''eventTimestamp'']
         \<and> isIsoTimestamp (toString (own c ''eventTimestamp''))
         \<and> finiteNumbers (own c ''location'')
      then (case canonicalJSON (sealableFields c) of None \<Rightarrow> Inl InvalidContent | Some t \<Rightarrow> Inr t)
      else Inl InvalidContent)"

text \<open>
  Modelled from the spec: the primitives the engine calls (sections 4.2 to 4.4), which
  live in the backend and its libraries: the hash of the Digest Engine, \<open>sign\<close> and
  \<open>verifySignature\<close> of the Signer (digest, then key), \<open>attest\<close> of the Timestamp
  Attestor (\<open>None\<close> when no attestation was obtained) and \<open>verifyAttestation\<close>, the
  check of a proof against the trusted time authorities and against the digest.
\<close>

record primitives =
  digestOf :: "string \<Rightarrow> string"
  sign :: "string \<Rightarrow> string \<Rightarrow> string"
  verifySignature :: "string \<Rightarrow> string \<Rightarrow> string \<Rightarrow> bool"
  attest :: "string \<Rightarrow> string option"
  verifyAttestation :: "string \<Rightarrow> string \<Rightarrow> bool"

text \<open>
  Modelled from the spec: the key the Signer holds (section 3, KeyMaterial), kept in the
  backend: its version and its private half, \<open>None\<close> when that is inaccessible.
\<close>

record signing_key =
  keyVersion :: string
  privateKey :: "string option"

text \<open>
  Modelled from the spec: SealedRecord (section 3), produced by the backend: the sealable
  content, digest, signature, the two versions, the time of sealing, the optional
  timestamp proof and the status.
\<close>

record SealedRecord =
  sr_content :: jsval
  sr_contentHash :: string
  sr_signature :: string
  sr_sealingVersion :: string
  sr_publicKeyVersion :: string
  sr_sealedTimestamp :: string
  sr_timestampProof :: "string option"
  sr_status :: string

text \<open>
  Modelled from the spec: the transition of the Sealing Orchestrator (section 4.5), whose
  code is in the backend: canonicalize, digest, sign, attest at best effort, assign the
  versions and the time. A draft that is already sealed is refused, and so is a sealing
  without access to the private key; a missing attestation is not a failure.
\<close>

definition seal ::
  "primitives \<Rightarrow> signing_key \<Rightarrow> string \<Rightarrow> string \<Rightarrow> draft_state \<Rightarrow> jsval \<Rightarrow> seal_error + SealedRecord" where
  "seal p key sealingVersion now st c =
     (case st of
        Sealed \<Rightarrow> Inl AlreadySealed
      | Drafting \<Rightarrow>
          (case canonicalize c of
             Inl e \<Rightarrow> Inl e
           | Inr canonicalForm \<Rightarrow>
               (case privateKey key of
                  None \<Rightarrow> Inl SigningUnavailable
                | Some sk \<Rightarrow>
                    Inr \<lparr> sr_content = sealableFields c,
                          sr_contentHash = digestOf p canonicalForm,
                          sr_signature = sign p (digestOf p canonicalForm) sk,
                          sr_sealingVersion = sealingVersion,
                          sr_publicKeyVersion = keyVersion key,
                          sr_sealedTimestamp = now,
                          sr_timestampProof = attest p (digestOf p canonicalForm),
                          sr_status = ''SEALED'' \<rparr>)))"

text \<open>
  Modelled from the spec: VerificationVerdict (section 3), produced by the backend.
\<close>

record verdict =
  v_isValid :: bool
  v_integrityValid :: bool
  v_signatureValid :: bool
  v_timestampValid :: "bool option"
  v_message :: string

text \<open>
  Modelled from the spec: the Verifier (section 4.6), whose code is in the backend. It
  recomputes the canonical form and the digest from the record's own content, compares
  the digest with the stored one, resolves the key version among the trusted keys and
  checks the signature over the recomputed digest, and checks the timestamp proof when
  there is one (\<open>None\<close>, unknown, when there is none). The record is valid when
  integrity and signature hold and the timestamp proof has not failed. A record whose
  content cannot be canonicalized is invalid at once. The wording of the messages is not
  fixed by the specification, except \<open>unknown key version\<close>.
\<close>

definition verify :: "primitives \<Rightarrow> (string \<rightharpoonup> string) \<Rightarrow> SealedRecord \<Rightarrow> verdict" where
  "verify p trustedPublicKeys r =
     (case canonicalize (sr_content r) of
        Inl e \<Rightarrow>
          \<lparr> v_isValid = False, v_integrityValid = False, v_signatureValid = False,
            v_timestampValid = None, v_message = ''malformed input'' \<rparr>
      | Inr canonicalForm \<Rightarrow>
          (let d = digestOf p canonicalForm;
               integrity = (d = sr_contentHash r);
               signature =
                 (case trustedPublicKeys (sr_publicKeyVersion r) of
                    None \<Rightarrow> False
                  | Some pk \<Rightarrow> verifySignature p d (sr_signature r) pk);
               timestamp =
                 (case sr_timestampProof r of
                    None \<Rightarrow> None
                  | Some proof \<Rightarrow> Some (verifyAttestation p proof d))
           in \<lparr> v_isValid = (integrity \<and> signature \<and> timestamp \<noteq> Some False),
                v_integrityValid = integrity,
                v_signatureValid = signature,
                v_timestampValid = timestamp,
                v_message =
                  (if \<not> integrity then ''content hash mismatch''
                   else if trustedPublicKeys (sr_publicKeyVersion r) = None
                     then ''unknown key version''
                   else if \<not> signature then ''invalid signature''
                   else if timestamp = Some False then ''invalid timestamp proof''
                   else ''verified'') \<rparr>))"

text \<open>
  Modelled from the spec: the answers of the backend on the wire (section 6), \<open>seal\<close>
  returning a SealedRecord and \<open>verify\<close> a VerificationVerdict; the encoders are in the
  backend. The member names are the ones the frontend declares for what it receives
  (\<open>TruthRecordResponse\<close> and the result type of \<open>verifyRecord\<close>); an original record
  is version 1.
\<close>

definition SealedRecord_json :: "SealedRecord \<Rightarrow> jsval" where
  "SealedRecord_json r =
     JObj (map (\<lambda>k. (k, own (sr_content r) k))
             [''id'', ''ownerId'', ''title'', ''content'', ''eventTimestamp'']
           @ [(''sealedTimestamp'', JStr (sr_sealedTimestamp r)),
              (''contentHash'', JStr (sr_contentHash r)),
              (''signature'', JStr (sr_signature r)),
              (''version'', JNum ''1''),
              (''status'', JStr (sr_status r)),
              (''sealingVersion'', JStr (sr_sealingVersion r)),
              (''publicKeyVersion'', JStr (sr_publicKeyVersion r))]
           @ (if own (sr_content r) ''location'' = JUndefined then []
              else [(''location'', own (sr_content r) ''location'')])
           @ optional_member ''timestampProof'' (sr_timestampProof r) JStr)"

definition verdict_json :: "string \<Rightarrow> verdict \<Rightarrow> jsval" where
  "verdict_json recordId v =
     JObj [(''recordId'', JStr recordId),
           (''isValid'', JBool (v_isValid v)),
           (''integrityValid'', JBool (v_integrityValid v)),
           (''signatureValid'', JBool (v_signatureValid v)),
           (''timestampValid'', (case v_timestampValid v of None \<Rightarrow> JNull | Some b \<Rightarrow> JBool b)),
           (''message'', JStr (v_message v))]"

text \<open>
  Toy primitives for concrete runs: the digest is the text itself, a signature is the
  digest followed by the key, the public key equals the private one, and a timestamp
  proof is the digest it attests.
\<close>

definition toy_primitives :: primitives where
  "toy_primitives =
     \<lparr> digestOf = (\<lambda>t. t),
       sign = (\<lambda>d k. d @ k),
       verifySignature = (\<lambda>d s k. s = d @ k),
       attest = (\<lambda>d. Some d),
       verifyAttestation = (\<lambda>proof d. proof = d) \<rparr>"

definition content_r1 :: jsval where
  "content_r1 =
     JObj [(''id'', JStr ''r1''), (''ownerId'', JStr ''u1''), (''title'', JStr ''T''),
           (''content'', JStr ''hello''), (''eventTimestamp'', JStr ''2024-01-15T14:30:00.000Z'')]"

section \<open>Properties of the file upload component\<close>

lemma toString16_byte:
  "n < 256 \<Longrightarrow>
   toString16 n = (if n < 16 then [hexDigit n] else [hexDigit (n div 16), hexDigit (n mod 16)])"
  by (subst toString16.simps, subst toString16.simps) auto

lemma hexDigit_in: "d < 16 \<Longrightarrow> hexDigit d \<in> set ''0123456789abcdef''"
  unfolding hexDigit_def by (rule nth_mem) simp

lemma padStart_byte:
  "n < 256 \<Longrightarrow> padStart 2 ''0'' (toString16 n) = [hexDigit (n div 16), hexDigit (n mod 16)]"
  by (simp add: toString16_byte padStart_def hexDigit_def)

lemma unat_byte: "unat (b::byte) < 256"
  using unsigned_less [of b] by simp

lemma calculateFileHash_pairs:
  "calculateFileHash digest f =
   concat (map (\<lambda>b. [hexDigit (unat b div 16), hexDigit (unat b mod 16)]) (digest (file_bytes f)))"
  by (simp add: calculateFileHash_def padStart_byte unat_byte)

lemma concat_pairs_length: "length (concat (map (\<lambda>b. [g b, h b]) bs)) = 2 * length bs"
  by (induction bs) simp_all

lemma concat_pairs_set:
  "set (concat (map (\<lambda>b. [g b, h b]) bs)) = g ` set bs \<union> h ` set bs"
  by (induction bs) auto

text \<open>
  Claim C7. Whenever the platform digest is 32 bytes long (256 bits), the string returned
  by \<open>calculateFileHash\<close> has exactly 64 characters, all of them lowercase hexadecimal
  digits, and it is the concatenation, byte by byte, of the two digits of that byte (high
  nibble, then low nibble), so a byte below 16 is zero-padded.
\<close>

theorem calculateFileHash_hex:
  assumes "length (digest (file_bytes f)) = 32"
  shows "length (calculateFileHash digest f) = 64
       \<and> set (calculateFileHash digest f) \<subseteq> set ''0123456789abcdef''
       \<and> calculateFileHash digest f =
           concat (map (\<lambda>b. [hexDigit (unat b div 16), hexDigit (unat b mod 16)])
                       (digest (file_bytes f)))"
proof -
  have len: "length (calculateFileHash digest f) = 64"
    using assms by (simp add: calculateFileHash_pairs concat_pairs_length)
  have "hexDigit (unat b div 16) \<in> set ''0123456789abcdef''" for b :: byte
    using unat_byte [of b] by (intro hexDigit_in) simp
  moreover have "hexDigit (unat b mod 16) \<in> set ''0123456789abcdef''" for b :: byte
    by (intro hexDigit_in) simp
  ultimately have "set (calculateFileHash digest f) \<subseteq> set ''0123456789abcdef''"
    unfolding calculateFileHash_pairs concat_pairs_set by blast
  with len show ?thesis
    using calculateFileHash_pairs by blast
qed

theorem calculateFileHash_hex_witness:
  "length ((\<lambda>bs. replicate 32 (of_nat (length bs) :: byte))
             (file_bytes \<lparr> file_name = ''a.txt'', file_type = ''text/plain'', file_bytes = [1, 2, 3] \<rparr>)) = 32
   \<and> length (calculateFileHash (\<lambda>bs. replicate 32 (of_nat (length bs)))
        \<lparr> file_name = ''a.txt'', file_type = ''text/plain'', file_bytes = [1, 2, 3] \<rparr>) = 64"
proof -
  let ?d = "\<lambda>bs. replicate 32 (of_nat (length bs) :: byte)"
  let ?f = "\<lparr> file_name = ''a.txt'', file_type = ''text/plain'', file_bytes = [1, 2, 3] \<rparr>"
  have h: "length (?d (file_bytes ?f)) = 32"
    by simp
  from calculateFileHash_hex [of ?d ?f, OF h]
  have "length (calculateFileHash ?d ?f) = 64"
    by (rule conjunct1)
  with h show ?thesis
    by (rule conjI)
qed

lemma no_rejection_all_fulfilled:
  "rejectedAtOnce ps = None \<Longrightarrow> rejectedLater ps = None \<Longrightarrow> \<forall>p\<in>set ps. \<exists>v. p = Fulfilled v"
proof (induction ps)
  case Nil
  then show ?case by simp
next
  case (Cons p ps)
  then show ?case by (cases p) simp_all
qed

lemma promiseAll_rejects:
  assumes "\<exists>x\<in>set xs. \<forall>v. g x \<noteq> Fulfilled v"
  shows "isl (promiseAll (map g xs))"
proof (cases "rejectedAtOnce (map g xs)")
  case (Some e)
  then show ?thesis by (simp add: promiseAll_def)
next
  case None
  show ?thesis
  proof (cases "rejectedLater (map g xs)")
    case (Some e)
    with None show ?thesis by (simp add: promiseAll_def)
  next
    case none_later: None
    from no_rejection_all_fulfilled [OF None none_later] assms show ?thesis
      by auto
  qed
qed

lemma promiseAll_resolves:
  "\<forall>x\<in>set xs. g x = Fulfilled (h x) \<Longrightarrow> promiseAll (map g xs) = Inr (map h xs)"
proof -
  assume all: "\<forall>x\<in>set xs. g x = Fulfilled (h x)"
  then have "rejectedAtOnce (map g xs) = None" "rejectedLater (map g xs) = None"
    "fulfilled (map g xs) = map h xs"
    by (induction xs) simp_all
  then show ?thesis
    by (simp add: promiseAll_def)
qed

lemma processFile_refused:
  "refused rejection maxSize acceptedTypes f \<Longrightarrow>
   processFile digest reader rejection maxSize acceptedTypes f \<noteq> Fulfilled v"
  by (auto simp: refused_def processFile_def split: option.splits)

lemma processFile_accepted:
  "\<not> refused rejection maxSize acceptedTypes f \<Longrightarrow>
   processFile digest reader rejection maxSize acceptedTypes f =
     Fulfilled \<lparr> file_of = f, hash = calculateFileHash digest f, preview = generatePreview reader f,
                 uploadProgress = Some 0, uploaded = Some False, error = None \<rparr>"
  by (auto simp: refused_def processFile_def)

text \<open>
  Claim C9, as the code has it. \<open>processFiles\<close> adds a batch all-or-none. If the batch
  would take the list beyond \<open>maxFiles\<close>, or some file of the batch is larger than
  \<open>maxSize\<close>, has a type outside \<open>acceptedTypes\<close>, or cannot be read and hashed,
  \<open>onFilesChange\<close> is not called at all. Otherwise it is called exactly once, with the
  previous files followed by one entry per batch file, in batch order, each holding the
  file and the hash computed by \<open>calculateFileHash\<close>.
\<close>

theorem processFiles_all_or_none:
  "onFilesChange_calls
     (processFiles digest reader rejection files maxFiles maxSize acceptedTypes batch) =
     (if length files + length batch > maxFiles
         \<or> (\<exists>f\<in>set batch. file_size f > maxSize
               \<or> (case acceptedTypes of None \<Rightarrow> False | Some ts \<Rightarrow> file_type f \<notin> set ts)
               \<or> rejection f \<noteq> None)
      then []
      else [files @ map (\<lambda>f. \<lparr> file_of = f, hash = calculateFileHash digest f,
                                 preview = generatePreview reader f, uploadProgress = Some 0,
                                 uploaded = Some False, error = None \<rparr>) batch])"
proof (cases "length files + length batch > maxFiles")
  case True
  then show ?thesis
    by (simp add: processFiles_def)
next
  case fits: False
  show ?thesis
  proof (cases "\<exists>f\<in>set batch. refused rejection maxSize acceptedTypes f")
    case True
    then have "isl (promiseAll (map (processFile digest reader rejection maxSize acceptedTypes) batch))"
      using processFile_refused [of rejection maxSize acceptedTypes _ digest reader]
      by (intro promiseAll_rejects) blast
    then obtain e where
      "promiseAll (map (processFile digest reader rejection maxSize acceptedTypes) batch) = Inl e"
      by (auto simp: isl_def)
    with fits True show ?thesis
      by (auto simp: processFiles_def refused_def)
  next
    case False
    then have "promiseAll (map (processFile digest reader rejection maxSize acceptedTypes) batch) =
        Inr (map (\<lambda>f. \<lparr> file_of = f, hash = calculateFileHash digest f,
                         preview = generatePreview reader f, uploadProgress = Some 0,
                         uploaded = Some False, error = None \<rparr>) batch)"
      by (intro promiseAll_resolves) (simp add: processFile_accepted)
    with fits False show ?thesis
      by (simp add: processFiles_def refused_def)
  qed
qed

theorem processFiles_all_or_none_witness:
  "onFilesChange_calls
     (processFiles (\<lambda>bs. [0x0a, 0xff]) (\<lambda>f. None) (\<lambda>f. None) [] 2 4 (Some [''text/plain''])
        [\<lparr> file_name = ''a.txt'', file_type = ''text/plain'', file_bytes = [1, 2, 3] \<rparr>,
         \<lparr> file_name = ''b.txt'', file_type = ''text/plain'', file_bytes = [] \<rparr>]) =
     [[\<lparr> file_of = \<lparr> file_name = ''a.txt'', file_type = ''text/plain'', file_bytes = [1, 2, 3] \<rparr>,
         hash = ''0aff'', preview = None, uploadProgress = Some 0, uploaded = Some False,
         error = None \<rparr>,
       \<lparr> file_of = \<lparr> file_name = ''b.txt'', file_type = ''text/plain'', file_bytes = [] \<rparr>,
         hash = ''0aff'', preview = None, uploadProgress = Some 0, uploaded = Some False,
         error = None \<rparr>]]
   \<and> onFilesChange_calls
     (processFiles (\<lambda>bs. [0x0a, 0xff]) (\<lambda>f. None) (\<lambda>f. None) [] 2 4 (Some [''text/plain''])
        [\<lparr> file_name = ''a.txt'', file_type = ''text/plain'', file_bytes = [1, 2, 3] \<rparr>,
         \<lparr> file_name = ''b.png'', file_type = ''image/png'', file_bytes = [] \<rparr>]) = []"
  using processFiles_all_or_none
    [of "\<lambda>bs. [0x0a, 0xff]" "\<lambda>f. None" "\<lambda>f. None" "[]" 2 4 "Some [''text/plain'']"
        "[\<lparr> file_name = ''a.txt'', file_type = ''text/plain'', file_bytes = [1, 2, 3] \<rparr>,
          \<lparr> file_name = ''b.txt'', file_type = ''text/plain'', file_bytes = [] \<rparr>]"]
    processFiles_all_or_none
    [of "\<lambda>bs. [0x0a, 0xff]" "\<lambda>f. None" "\<lambda>f. None" "[]" 2 4 "Some [''text/plain'']"
        "[\<lparr> file_name = ''a.txt'', file_type = ''text/plain'', file_bytes = [1, 2, 3] \<rparr>,
          \<lparr> file_name = ''b.png'', file_type = ''image/png'', file_bytes = [] \<rparr>]"]
  by (simp add: file_size_def calculateFileHash_def padStart_def toString16.simps hexDigit_def
        generatePreview_def startsWith_def)

text \<open>
  The claim as the specification words it names only the count, the size and the type as
  causes of a refusal, and promises the one call otherwise. A single file that passes all
  three but can no longer be read when it is hashed is not added either: the rejection of
  \<open>file.arrayBuffer()\<close> reaches the \<open>catch\<close>, which shows an alert.
\<close>

theorem processFiles_unreadable_counterexample:
  "\<not> length ([] :: FileWithHash list)
        + length [\<lparr> file_name = ''a.txt'', file_type = ''text/plain'', file_bytes = [1, 2, 3] \<rparr>] > 10
   \<and> \<not> file_size \<lparr> file_name = ''a.txt'', file_type = ''text/plain'', file_bytes = [1, 2, 3] \<rparr> > 100
   \<and> file_type \<lparr> file_name = ''a.txt'', file_type = ''text/plain'', file_bytes = [1, 2, 3] \<rparr>
        \<in> set [''text/plain'']
   \<and> processFiles (\<lambda>bs. [0x0a, 0xff]) (\<lambda>f. None)
        (\<lambda>f. Some (Error ''The requested file could not be read'')) [] 10 100
        (Some [''text/plain''])
        [\<lparr> file_name = ''a.txt'', file_type = ''text/plain'', file_bytes = [1, 2, 3] \<rparr>]
      = \<lparr> alerts = [FailedToProcess (Error ''The requested file could not be read'')],
          onFilesChange_calls = [] \<rparr>"
  by (simp add: processFiles_def processFile_def promiseAll_def file_size_def)

section \<open>Properties of the API services\<close>

lemma getProp_own: "v \<noteq> JNull \<Longrightarrow> v \<noteq> JUndefined \<Longrightarrow> getProp v k = Inr (own v k)"
  by (cases v) simp_all

lemma truthy_defined: "truthy d \<Longrightarrow> d \<noteq> JUndefined \<and> d \<noteq> JNull"
  by (cases d) simp_all

lemma api_unfold: "api e fetch c = api_result (returns_whole c) (fetch (request_of e c))"
  by (cases c)
     (simp_all add: createTruthRecord_def getTruthRecord_def verifyRecord_def getPublicKey_def
        getVerificationBundle_def createMemoryRecord_def getMemoryRecord_def
        listMemoryRecords_def updateMemoryRecord_def uploadFile_def uploadMultipleFiles_def)

lemma api_success_payload:
  assumes "api_success whole r = Inr ret"
  shows "\<exists>d. (if whole then getProp ret ''data'' else Inr ret) = Inr d \<and> truthy d"
proof -
  from assms obtain result where res: "await_json r = Inr result"
    by (cases "await_json r") (simp_all add: api_success_def thenE_def)
  with assms obtain d where d: "getProp result ''data'' = Inr d"
    by (cases "getProp result ''data''") (simp_all add: api_success_def thenE_def)
  from assms res d have t: "truthy d" and ret: "ret = (if whole then result else d)"
    by (auto simp: api_success_def thenE_def split: if_splits)
  from ret d t show ?thesis
    by auto
qed

lemma api_result_payload:
  assumes "api_result whole outcome = Inr ret"
  shows "\<exists>d. (if whole then getProp ret ''data'' else Inr ret) = Inr d \<and> truthy d"
proof (cases outcome)
  case (Rejected m)
  with assms show ?thesis
    by (simp add: api_result_def)
next
  case (Responded r)
  with assms have "api_success whole r = Inr ret"
    by (simp add: api_result_def split: if_splits)
  then show ?thesis
    by (rule api_success_payload)
qed

lemma api_failure_message:
  assumes "json r \<noteq> Inr JNull" and "json r \<noteq> Inr JUndefined"
  shows "api_failure r = Error (http_error_message r)"
proof -
  let ?b = "json_catch r (JObj [])"
  from assms have nn: "?b \<noteq> JNull" "?b \<noteq> JUndefined"
    by (auto simp: json_catch_def split: sum.splits)
  then show ?thesis
    by (simp add: api_failure_def http_error_message_def getProp_own Let_def)
qed

lemma api_success_missing:
  assumes "json r = Inr v" and "v \<noteq> JNull" and "v \<noteq> JUndefined" and "\<not> truthy (own v ''data'')"
  shows "api_success whole r = Inl (Error ''Invalid response: missing data'')"
  using assms by (simp add: api_success_def await_json_def thenE_def getProp_own)

text \<open>
  Claim C10, as the code has it. For every exported function of \<open>api.ts\<close>, every
  environment and every behaviour of the network: (1) whatever the call returns holds a
  data payload that is truthy, hence neither \<open>undefined\<close> nor \<open>null\<close>; (2) on a
  response that is not ok and whose body is not the JSON value \<open>null\<close>, the call throws
  \<open>new Error\<close> with the body's \<open>error\<close> field, else its \<open>message\<close> field, else
  \<open>HTTP error! status: <status>\<close> (a body that is not JSON counts as \<open>{}\<close>); (3) on
  an ok response whose body is a JSON value other than \<open>null\<close> with no truthy \<open>data\<close>
  field, the call throws an error whose message is exactly
  \<open>Invalid response: missing data\<close>.
\<close>

theorem api_returns_payload_or_throws:
  "(\<forall>ret. api e fetch c = Inr ret \<longrightarrow>
       (\<exists>d. payload c ret = Inr d \<and> truthy d \<and> d \<noteq> JUndefined \<and> d \<noteq> JNull))
   \<and> (\<forall>r. fetch (request_of e c) = Responded r \<and> \<not> ok r
           \<and> json r \<noteq> Inr JNull \<and> json r \<noteq> Inr JUndefined \<longrightarrow>
         api e fetch c = Inl (Error (http_error_message r)))
   \<and> (\<forall>r v. fetch (request_of e c) = Responded r \<and> ok r \<and> json r = Inr v
           \<and> v \<noteq> JNull \<and> v \<noteq> JUndefined \<and> \<not> truthy (own v ''data'') \<longrightarrow>
         api e fetch c = Inl (Error ''Invalid response: missing data''))"
proof (intro conjI allI impI)
  fix ret
  assume "api e fetch c = Inr ret"
  then have "api_result (returns_whole c) (fetch (request_of e c)) = Inr ret"
    by (simp add: api_unfold)
  then obtain d where "payload c ret = Inr d" and "truthy d"
    unfolding payload_def by (blast dest: api_result_payload)
  then show "\<exists>d. payload c ret = Inr d \<and> truthy d \<and> d \<noteq> JUndefined \<and> d \<noteq> JNull"
    using truthy_defined by blast
next
  fix r
  assume "fetch (request_of e c) = Responded r \<and> \<not> ok r
    \<and> json r \<noteq> Inr JNull \<and> json r \<noteq> Inr JUndefined"
  then show "api e fetch c = Inl (Error (http_error_message r))"
    by (simp add: api_unfold api_result_def api_failure_message)
next
  fix r v
  assume "fetch (request_of e c) = Responded r \<and> ok r \<and> json r = Inr v
    \<and> v \<noteq> JNull \<and> v \<noteq> JUndefined \<and> \<not> truthy (own v ''data'')"
  then show "api e fetch c = Inl (Error ''Invalid response: missing data'')"
    by (simp add: api_unfold api_result_def api_success_missing)
qed

theorem api_returns_payload_or_throws_witness:
  "api \<lparr> VITE_API_URL = None, VITE_SUPABASE_ANON_KEY = None \<rparr>
       (\<lambda>q. Responded \<lparr> status = 500, json = Inr (JObj [(''error'', JStr ''boom'')]) \<rparr>)
       (GetTruthRecord ''r1'') = Inl (Error ''boom'')
   \<and> api \<lparr> VITE_API_URL = None, VITE_SUPABASE_ANON_KEY = None \<rparr>
       (\<lambda>q. Responded \<lparr> status = 200, json = Inr (JObj [(''message'', JStr ''hello'')]) \<rparr>)
       (VerifyRecord ''r1'') = Inl (Error ''Invalid response: missing data'')
   \<and> (\<exists>d. payload (ListMemoryRecords ''u1'' 1 20)
              (JObj [(''data'', JArr []), (''meta'', JObj [])]) = Inr d
          \<and> truthy d \<and> d \<noteq> JUndefined \<and> d \<noteq> JNull)"
proof (intro conjI)
  let ?E = "\<lparr> VITE_API_URL = None, VITE_SUPABASE_ANON_KEY = None \<rparr>"
  let ?F1 = "\<lambda>q :: request. Responded \<lparr> status = 500, json = Inr (JObj [(''error'', JStr ''boom'')]) \<rparr>"
  let ?F2 = "\<lambda>q :: request. Responded \<lparr> status = 200, json = Inr (JObj [(''message'', JStr ''hello'')]) \<rparr>"
  let ?F3 = "\<lambda>q :: request. Responded \<lparr> status = 200,
               json = Inr (JObj [(''data'', JArr []), (''meta'', JObj [])]) \<rparr>"
  show "api ?E ?F1 (GetTruthRecord ''r1'') = Inl (Error ''boom'')"
    using api_returns_payload_or_throws [of ?E ?F1 "GetTruthRecord ''r1''"]
    by (simp add: ok_def http_error_message_def json_catch_def or_else_def)
  show "api ?E ?F2 (VerifyRecord ''r1'') = Inl (Error ''Invalid response: missing data'')"
    using api_returns_payload_or_throws [of ?E ?F2 "VerifyRecord ''r1''"]
    by (simp add: ok_def)
  have "api ?E ?F3 (ListMemoryRecords ''u1'' 1 20) =
      Inr (JObj [(''data'', JArr []), (''meta'', JObj [])])"
    by (simp add: listMemoryRecords_def api_result_def api_success_def await_json_def thenE_def
          ok_def)
  with api_returns_payload_or_throws [of ?E ?F3 "ListMemoryRecords ''u1'' 1 20"]
  show "\<exists>d. payload (ListMemoryRecords ''u1'' 1 20)
              (JObj [(''data'', JArr []), (''meta'', JObj [])]) = Inr d
          \<and> truthy d \<and> d \<noteq> JUndefined \<and> d \<noteq> JNull"
    by blast
qed

text \<open>
  The claim as the specification words it fails where the body of an ok response cannot be
  read as an object at all. A 204 answer has an empty body: \<open>response.json()\<close> is
  rejected, and the caller sees the parser's \<open>SyntaxError\<close>, not
  \<open>Invalid response: missing data\<close>.
\<close>

theorem api_missing_data_counterexample:
  "ok \<lparr> status = 204, json = Inl ''Unexpected end of JSON input'' \<rparr>
   \<and> getTruthRecord \<lparr> VITE_API_URL = None, VITE_SUPABASE_ANON_KEY = None \<rparr>
        (\<lambda>q. Responded \<lparr> status = 204, json = Inl ''Unexpected end of JSON input'' \<rparr>) ''r1''
      = Inl (JsonSyntaxError ''Unexpected end of JSON input'')
   \<and> getTruthRecord \<lparr> VITE_API_URL = None, VITE_SUPABASE_ANON_KEY = None \<rparr>
        (\<lambda>q. Responded \<lparr> status = 204, json = Inl ''Unexpected end of JSON input'' \<rparr>) ''r1''
      \<noteq> Inl (Error ''Invalid response: missing data'')"
  by (simp add: getTruthRecord_def api_result_def api_success_def await_json_def thenE_def ok_def)

text \<open>
  A body that is the JSON value \<open>null\<close> is the other case outside the statement: the
  read of \<open>result.data\<close> throws the engine's \<open>TypeError\<close>.
\<close>

lemma api_null_body:
  "getTruthRecord e (\<lambda>q. Responded \<lparr> status = 200, json = Inr JNull \<rparr>) recordId
     = Inl (NullPropertyRead ''data'')"
  by (simp add: getTruthRecord_def api_result_def api_success_def await_json_def thenE_def ok_def)

text \<open>
  Claim C8, as the code has it. \<open>getTruthRecord\<close> of the edge service, on a response
  that is not ok: a 404 throws an error whose message is exactly \<open>Record not found\<close>;
  any other status throws an error whose message is the body's \<open>error\<close> field when
  the body is JSON (not \<open>null\<close>) and that field is truthy, \<open>HTTP <status>\<close> when the
  body is JSON and the field is missing or falsy, and \<open>Unknown error\<close> when the body is
  not JSON. Not-found is no variant of its own: what is thrown is the same kind of error
  object in every case, told apart by its message alone, and another failure whose body
  carries the error text \<open>Record not found\<close> throws exactly what a 404 throws.
\<close>

theorem edge_getTruthRecord_errors:
  assumes "fetch (edge_getTruthRecord_request e ident) = Responded r" and "\<not> ok r"
  shows "(status r = 404 \<longrightarrow> edge_getTruthRecord e fetch ident = Inl (Error ''Record not found''))
       \<and> (\<forall>v. status r \<noteq> 404 \<and> json r = Inr v \<and> v \<noteq> JNull \<and> v \<noteq> JUndefined \<longrightarrow>
            edge_getTruthRecord e fetch ident =
              Inl (Error (if truthy (own v ''error'') then toString (own v ''error'')
                          else ''HTTP '' @ decimal (status r))))
       \<and> (\<forall>m. status r \<noteq> 404 \<and> json r = Inl m \<longrightarrow>
            edge_getTruthRecord e fetch ident = Inl (Error ''Unknown error''))
       \<and> (\<forall>v. status r \<noteq> 404 \<and> json r = Inr v \<and> own v ''error'' = JStr ''Record not found'' \<longrightarrow>
            edge_getTruthRecord e fetch ident = Inl (Error ''Record not found''))"
proof (intro conjI allI impI)
  assume "status r = 404"
  with assms show "edge_getTruthRecord e fetch ident = Inl (Error ''Record not found'')"
    by (simp add: edge_getTruthRecord_def)
next
  fix v
  assume "status r \<noteq> 404 \<and> json r = Inr v \<and> v \<noteq> JNull \<and> v \<noteq> JUndefined"
  with assms show "edge_getTruthRecord e fetch ident =
      Inl (Error (if truthy (own v ''error'') then toString (own v ''error'')
                  else ''HTTP '' @ decimal (status r)))"
    by (simp add: edge_getTruthRecord_def json_catch_def getProp_own or_else_def)
next
  fix m
  assume "status r \<noteq> 404 \<and> json r = Inl m"
  with assms show "edge_getTruthRecord e fetch ident = Inl (Error ''Unknown error'')"
    by (simp add: edge_getTruthRecord_def json_catch_def or_else_def)
next
  fix v
  assume h: "status r \<noteq> 404 \<and> json r = Inr v \<and> own v ''error'' = JStr ''Record not found''"
  then have "v \<noteq> JNull" "v \<noteq> JUndefined"
    by auto
  with assms h show "edge_getTruthRecord e fetch ident = Inl (Error ''Record not found'')"
    by (simp add: edge_getTruthRecord_def json_catch_def getProp_own or_else_def)
qed

theorem edge_getTruthRecord_errors_witness:
  "edge_getTruthRecord \<lparr> VITE_API_URL = None, VITE_SUPABASE_ANON_KEY = None \<rparr>
     (\<lambda>q. Responded \<lparr> status = 404, json = Inr (JObj [(''error'', JStr ''no such row'')]) \<rparr>) ''r1''
     = Inl (Error ''Record not found'')
   \<and> edge_getTruthRecord \<lparr> VITE_API_URL = None, VITE_SUPABASE_ANON_KEY = None \<rparr>
     (\<lambda>q. Responded \<lparr> status = 500, json = Inr (JObj [(''error'', JStr ''db down'')]) \<rparr>) ''r1''
     = Inl (Error ''db down'')
   \<and> edge_getTruthRecord \<lparr> VITE_API_URL = None, VITE_SUPABASE_ANON_KEY = None \<rparr>
     (\<lambda>q. Responded \<lparr> status = 503, json = Inr (JObj []) \<rparr>) ''r1''
     = Inl (Error ''HTTP 503'')"
proof (intro conjI)
  let ?E = "\<lparr> VITE_API_URL = None, VITE_SUPABASE_ANON_KEY = None \<rparr>"
  let ?F1 = "\<lambda>q :: request. Responded \<lparr> status = 404, json = Inr (JObj [(''error'', JStr ''no such row'')]) \<rparr>"
  let ?F2 = "\<lambda>q :: request. Responded \<lparr> status = 500, json = Inr (JObj [(''error'', JStr ''db down'')]) \<rparr>"
  let ?F3 = "\<lambda>q :: request. Responded \<lparr> status = 503, json = Inr (JObj []) \<rparr>"
  show "edge_getTruthRecord ?E ?F1 ''r1'' = Inl (Error ''Record not found'')"
    using edge_getTruthRecord_errors [of ?F1 ?E "''r1''"]
    by (simp add: ok_def)
  show "edge_getTruthRecord ?E ?F2 ''r1'' = Inl (Error ''db down'')"
    using edge_getTruthRecord_errors [of ?F2 ?E "''r1''"]
    by (simp add: ok_def)
  show "edge_getTruthRecord ?E ?F3 ''r1'' = Inl (Error ''HTTP 503'')"
    using edge_getTruthRecord_errors [of ?F3 ?E "''r1''"]
    by (simp add: ok_def decimal.simps)
qed

text \<open>
  The claim as the specification words it fails in both of its parts. A 500 whose body is
  \<open>{"error": "Record not found"}\<close> throws exactly what a 404 throws, so the caller
  cannot tell not-found from another failure. And a 502 whose body is an HTML page has no
  \<open>error\<close> field, yet the message is \<open>Unknown error\<close> and not \<open>HTTP 502\<close>.
\<close>

theorem edge_getTruthRecord_counterexample:
  "edge_getTruthRecord \<lparr> VITE_API_URL = None, VITE_SUPABASE_ANON_KEY = None \<rparr>
        (\<lambda>q. Responded \<lparr> status = 500, json = Inr (JObj [(''error'', JStr ''Record not found'')]) \<rparr>)
        ''r1''
     = edge_getTruthRecord \<lparr> VITE_API_URL = None, VITE_SUPABASE_ANON_KEY = None \<rparr>
        (\<lambda>q. Responded \<lparr> status = 404, json = Inr (JObj [(''error'', JStr ''no such row'')]) \<rparr>)
        ''r1''
   \<and> edge_getTruthRecord \<lparr> VITE_API_URL = None, VITE_SUPABASE_ANON_KEY = None \<rparr>
        (\<lambda>q. Responded \<lparr> status = 500, json = Inr (JObj [(''error'', JStr ''Record not found'')]) \<rparr>)
        ''r1'' = Inl (Error ''Record not found'')
   \<and> \<not> ok \<lparr> status = 502, json = Inl ''Unexpected token < in JSON at position 0'' \<rparr>
   \<and> edge_getTruthRecord \<lparr> VITE_API_URL = None, VITE_SUPABASE_ANON_KEY = None \<rparr>
        (\<lambda>q. Responded \<lparr> status = 502, json = Inl ''Unexpected token < in JSON at position 0'' \<rparr>)
        ''r1'' = Inl (Error ''Unknown error'')
   \<and> edge_getTruthRecord \<lparr> VITE_API_URL = None, VITE_SUPABASE_ANON_KEY = None \<rparr>
        (\<lambda>q. Responded \<lparr> status = 502, json = Inl ''Unexpected token < in JSON at position 0'' \<rparr>)
        ''r1'' \<noteq> Inl (Error (''HTTP '' @ decimal 502))"
  by (simp add: edge_getTruthRecord_def json_catch_def or_else_def ok_def)

section \<open>Properties of the verification page\<close>

lemma handleVerify_try_throws:
  "verifyRecord e fetch rid = Inl err \<Longrightarrow> handleVerify_try e fetch rid = Inl err"
  by (simp add: handleVerify_try_def thenE_def)

lemma verifyRecord_network_failure:
  "fetch (verifyRecord_request e rid) = Rejected m \<Longrightarrow>
   verifyRecord e fetch rid = Inl (FetchFailed m)"
  by (simp add: verifyRecord_def api_result_def)

lemma verifyRecord_malformed_body:
  "fetch (verifyRecord_request e rid) = Responded r \<Longrightarrow> ok r \<Longrightarrow> json r = Inl m \<Longrightarrow>
   verifyRecord e fetch rid = Inl (JsonSyntaxError m)"
  by (simp add: verifyRecord_def api_result_def api_success_def await_json_def thenE_def)

text \<open>
  Claim C5. When a verification is attempted (the route gave a record id) and anything is
  thrown on the way, \<open>handleVerify\<close> ends with a verdict in the page state:
  \<open>isValid\<close>, \<open>integrityValid\<close> and \<open>signatureValid\<close> are \<open>false\<close>,
  \<open>timestampValid\<close> is \<open>null\<close>, and the message is the message of the error (or
  \<open>Verification failed\<close> for a thrown value that is not an error object). A rejected
  \<open>fetch\<close> and an ok response whose body is not JSON are two such errors. In every case
  the page ends with some verdict and is no longer verifying.
\<close>

theorem handleVerify_folds_errors:
  assumes "rid \<noteq> []"
  shows "(\<forall>err. verifyRecord e fetch rid = Inl err \<longrightarrow>
            handleVerify e fetch (Some rid) st =
              \<lparr> isVerifying = False,
                verificationResult = Some
                  \<lparr> isValid = JBool False, integrityValid = JBool False,
                    signatureValid = JBool False, timestampValid = JNull,
                    message = JStr (if instanceofError err then message_of err
                                    else ''Verification failed'') \<rparr> \<rparr>)
       \<and> (\<forall>m. fetch (verifyRecord_request e rid) = Rejected m \<longrightarrow>
            verifyRecord e fetch rid = Inl (FetchFailed m))
       \<and> (\<forall>r m. fetch (verifyRecord_request e rid) = Responded r \<and> ok r \<and> json r = Inl m \<longrightarrow>
            verifyRecord e fetch rid = Inl (JsonSyntaxError m))
       \<and> verificationResult (handleVerify e fetch (Some rid) st) \<noteq> None
       \<and> \<not> isVerifying (handleVerify e fetch (Some rid) st)"
proof (intro conjI allI impI)
  fix err
  assume "verifyRecord e fetch rid = Inl err"
  then have "handleVerify_try e fetch rid = Inl err"
    by (rule handleVerify_try_throws)
  with assms show "handleVerify e fetch (Some rid) st =
      \<lparr> isVerifying = False,
        verificationResult = Some
          \<lparr> isValid = JBool False, integrityValid = JBool False,
            signatureValid = JBool False, timestampValid = JNull,
            message = JStr (if instanceofError err then message_of err
                            else ''Verification failed'') \<rparr> \<rparr>"
    by (simp add: handleVerify_def)
next
  fix m
  assume "fetch (verifyRecord_request e rid) = Rejected m"
  then show "verifyRecord e fetch rid = Inl (FetchFailed m)"
    by (rule verifyRecord_network_failure)
next
  fix r m
  assume "fetch (verifyRecord_request e rid) = Responded r \<and> ok r \<and> json r = Inl m"
  then show "verifyRecord e fetch rid = Inl (JsonSyntaxError m)"
    by (simp add: verifyRecord_malformed_body)
next
  from assms show "verificationResult (handleVerify e fetch (Some rid) st) \<noteq> None"
    by (simp add: handleVerify_def split: sum.splits)
next
  from assms show "\<not> isVerifying (handleVerify e fetch (Some rid) st)"
    by (simp add: handleVerify_def split: sum.splits)
qed

theorem handleVerify_folds_errors_witness:
  "''r1'' \<noteq> []
   \<and> handleVerify \<lparr> VITE_API_URL = None, VITE_SUPABASE_ANON_KEY = None \<rparr>
       (\<lambda>q. Rejected ''Failed to fetch'') (Some ''r1'')
       \<lparr> isVerifying = False, verificationResult = None \<rparr> =
     \<lparr> isVerifying = False,
       verificationResult = Some
         \<lparr> isValid = JBool False, integrityValid = JBool False, signatureValid = JBool False,
           timestampValid = JNull, message = JStr ''Failed to fetch'' \<rparr> \<rparr>"
proof -
  let ?E = "\<lparr> VITE_API_URL = None, VITE_SUPABASE_ANON_KEY = None \<rparr>"
  let ?F = "\<lambda>q :: request. Rejected ''Failed to fetch''"
  have h: "''r1'' \<noteq> []"
    by simp
  have t: "verifyRecord ?E ?F ''r1'' = Inl (FetchFailed ''Failed to fetch'')"
    using handleVerify_folds_errors [OF h, of ?E ?F] by simp
  with handleVerify_folds_errors
    [OF h, of ?E ?F "\<lparr> isVerifying = False, verificationResult = None \<rparr>"]
  show ?thesis
    by simp
qed

lemma pick_own:
  "r \<noteq> JNull \<Longrightarrow> r \<noteq> JUndefined \<Longrightarrow> pick r ks = Inr (map (\<lambda>k. (k, own r k)) ks)"
  by (induction ks) (simp_all add: getProp_own thenE_def)

lemma sealableContent_own:
  assumes "truthy rec"
  shows "sealableContent rec =
    Inr (JObj (map (\<lambda>k. (k, own rec k)) [''id'', ''ownerId'', ''title'', ''content'', ''eventTimestamp'']
               @ (if truthy (own rec ''location'') then [(''location'', own rec ''location'')] else [])))"
proof -
  from assms have "rec \<noteq> JNull" "rec \<noteq> JUndefined"
    using truthy_defined by blast+
  then show ?thesis
    by (simp add: sealableContent_def pick_own getProp_own thenE_def)
qed

lemma serialize_defined: "v \<noteq> JUndefined \<Longrightarrow> \<exists>t. serialize gap ind v = Some t"
  by (cases v) simp_all

lemma sortKeys_defined: "v \<noteq> JUndefined \<Longrightarrow> sortKeys v \<noteq> JUndefined"
  by (cases v) simp_all

text \<open>
  Claim C1, as the code has it. For every record the page shows (the section is rendered
  only for a truthy record) whose \<open>id\<close>, \<open>ownerId\<close>, \<open>title\<close>, \<open>content\<close> and
  \<open>eventTimestamp\<close> are strings, the displayed JSON is the text of
  \<open>JSON.stringify(obj, null, 2)\<close>: the members in the order of the object literal
  (\<open>id\<close>, \<open>ownerId\<close>, \<open>title\<close>, \<open>content\<close>, \<open>eventTimestamp\<close>, then
  \<open>location\<close> when the record has a truthy one), each on its own line behind two
  spaces, with a space after the colon. The canonical form of the same object has the
  keys sorted (\<open>content\<close>, \<open>eventTimestamp\<close>, \<open>id\<close>, \<open>location\<close>, \<open>ownerId\<close>,
  \<open>title\<close>) and no whitespace between tokens. The two texts are never equal: the
  display is a readable rendering that the reader has to sort and strip, as the page's
  note says, before hashing.
\<close>

theorem sealableContentDisplay_literal_order:
  assumes shown: \<open>truthy rec\<close>
    and fields: \<open>own rec ''id'' = JStr i\<close> \<open>own rec ''ownerId'' = JStr ow\<close>
      \<open>own rec ''title'' = JStr t\<close> \<open>own rec ''content'' = JStr c\<close>
      \<open>own rec ''eventTimestamp'' = JStr ts\<close>
  shows \<open>sealableContent rec =
      Inr (JObj ([(''id'', JStr i), (''ownerId'', JStr ow), (''title'', JStr t),
                  (''content'', JStr c), (''eventTimestamp'', JStr ts)]
                 @ (if truthy (own rec ''location'') then [(''location'', own rec ''location'')]
                    else [])))
    \<and> sealableContentDisplay rec =
      Inr (Some (''{\<newline>  "id": '' @ quoteJSON i
                 @ '',\<newline>  "ownerId": '' @ quoteJSON ow
                 @ '',\<newline>  "title": '' @ quoteJSON t
                 @ '',\<newline>  "content": '' @ quoteJSON c
                 @ '',\<newline>  "eventTimestamp": '' @ quoteJSON ts
                 @ (if truthy (own rec ''location'')
                    then '',\<newline>  "location": ''
                         @ (case serialize ''  '' ''  '' (own rec ''location'') of
                              Some x \<Rightarrow> x | None \<Rightarrow> [])
                    else [])
                 @ ''\<newline>}''))
    \<and> thenE (sealableContent rec) (\<lambda>obj. Inr (canonicalJSON obj)) =
      Inr (Some (''{"content":'' @ quoteJSON c
                 @ '',"eventTimestamp":'' @ quoteJSON ts
                 @ '',"id":'' @ quoteJSON i
                 @ (if truthy (own rec ''location'')
                    then '',"location":''
                         @ (case serialize [] [] (sortKeys (own rec ''location'')) of
                              Some x \<Rightarrow> x | None \<Rightarrow> [])
                    else [])
                 @ '',"ownerId":'' @ quoteJSON ow
                 @ '',"title":'' @ quoteJSON t @ ''}''))
    \<and> sealableContentDisplay rec \<noteq> thenE (sealableContent rec) (\<lambda>obj. Inr (canonicalJSON obj))\<close>
proof -
  let ?loc = "own rec ''location''"
  have obj: "sealableContent rec =
      Inr (JObj ([(''id'', JStr i), (''ownerId'', JStr ow), (''title'', JStr t),
                  (''content'', JStr c), (''eventTimestamp'', JStr ts)]
                 @ (if truthy ?loc then [(''location'', ?loc)] else [])))"
    using shown fields by (simp add: sealableContent_own)
  have display: \<open>sealableContentDisplay rec =
      Inr (Some (''{\<newline>  "id": '' @ quoteJSON i
                 @ '',\<newline>  "ownerId": '' @ quoteJSON ow
                 @ '',\<newline>  "title": '' @ quoteJSON t
                 @ '',\<newline>  "content": '' @ quoteJSON c
                 @ '',\<newline>  "eventTimestamp": '' @ quoteJSON ts
                 @ (if truthy ?loc
                    then '',\<newline>  "location": ''
                         @ (case serialize ''  '' ''  '' ?loc of Some x \<Rightarrow> x | None \<Rightarrow> [])
                    else [])
                 @ ''\<newline>}''))\<close>
  proof (cases "truthy ?loc")
    case True
    then have "?loc \<noteq> JUndefined"
      using truthy_defined by blast
    then obtain x where x: "serialize ''  '' ''  '' ?loc = Some x"
      using serialize_defined by blast
    with True obj show ?thesis
      by (simp add: sealableContentDisplay_def thenE_def JSON_stringify_2_def wrap_def join_def
            quoteJSON_def quoteChar_def dquote_def backslash_def newline_def)
  next
    case False
    with obj show ?thesis
      by (simp add: sealableContentDisplay_def thenE_def JSON_stringify_2_def wrap_def join_def
            quoteJSON_def quoteChar_def dquote_def backslash_def newline_def)
  qed
  have canonical: \<open>thenE (sealableContent rec) (\<lambda>obj. Inr (canonicalJSON obj)) =
      Inr (Some (''{"content":'' @ quoteJSON c
                 @ '',"eventTimestamp":'' @ quoteJSON ts
                 @ '',"id":'' @ quoteJSON i
                 @ (if truthy ?loc
                    then '',"location":''
                         @ (case serialize [] [] (sortKeys ?loc) of Some x \<Rightarrow> x | None \<Rightarrow> [])
                    else [])
                 @ '',"ownerId":'' @ quoteJSON ow
                 @ '',"title":'' @ quoteJSON t @ ''}''))\<close>
  proof (cases "truthy ?loc")
    case True
    then have "sortKeys ?loc \<noteq> JUndefined"
      using truthy_defined sortKeys_defined by blast
    then obtain x where x: "serialize [] [] (sortKeys ?loc) = Some x"
      using serialize_defined by blast
    with True obj show ?thesis
      by (simp add: canonicalJSON_def thenE_def JSON_stringify_def wrap_def join_def
            quoteJSON_def quoteChar_def dquote_def backslash_def)
  next
    case False
    with obj show ?thesis
      by (simp add: canonicalJSON_def thenE_def JSON_stringify_def wrap_def join_def
            quoteJSON_def quoteChar_def dquote_def backslash_def)
  qed
  have differ: "sealableContentDisplay rec \<noteq> thenE (sealableContent rec) (\<lambda>obj. Inr (canonicalJSON obj))"
    unfolding display canonical by (simp add: quoteJSON_def dquote_def)
  from obj display canonical differ show ?thesis
    by blast
qed

theorem sealableContentDisplay_literal_order_witness:
  \<open>truthy record_r1
   \<and> own record_r1 ''id'' = JStr ''r1'' \<and> own record_r1 ''ownerId'' = JStr ''u1''
   \<and> own record_r1 ''title'' = JStr ''T'' \<and> own record_r1 ''content'' = JStr ''hello''
   \<and> own record_r1 ''eventTimestamp'' = JStr ''2024-01-15T14:30:00.000Z''
   \<and> sealableContentDisplay record_r1 =
       Inr (Some (''{\<newline>  "id": '' @ quoteJSON ''r1''
                  @ '',\<newline>  "ownerId": '' @ quoteJSON ''u1''
                  @ '',\<newline>  "title": '' @ quoteJSON ''T''
                  @ '',\<newline>  "content": '' @ quoteJSON ''hello''
                  @ '',\<newline>  "eventTimestamp": '' @ quoteJSON ''2024-01-15T14:30:00.000Z''
                  @ ''\<newline>}''))
   \<and> sealableContentDisplay record_r1 \<noteq>
       thenE (sealableContent record_r1) (\<lambda>obj. Inr (canonicalJSON obj))\<close>
proof -
  have shown: "truthy record_r1"
    by (simp add: record_r1_def)
  have fields: "own record_r1 ''id'' = JStr ''r1''" "own record_r1 ''ownerId'' = JStr ''u1''"
    "own record_r1 ''title'' = JStr ''T''" "own record_r1 ''content'' = JStr ''hello''"
    "own record_r1 ''eventTimestamp'' = JStr ''2024-01-15T14:30:00.000Z''"
    by (simp_all add: record_r1_def)
  have noloc: "\<not> truthy (own record_r1 ''location'')"
    by (simp add: record_r1_def)
  note main = sealableContentDisplay_literal_order [OF shown fields]
  from main have differ: "sealableContentDisplay record_r1 \<noteq>
       thenE (sealableContent record_r1) (\<lambda>obj. Inr (canonicalJSON obj))"
    by blast
  from main have \<open>sealableContentDisplay record_r1 =
      Inr (Some (''{\<newline>  "id": '' @ quoteJSON ''r1''
                 @ '',\<newline>  "ownerId": '' @ quoteJSON ''u1''
                 @ '',\<newline>  "title": '' @ quoteJSON ''T''
                 @ '',\<newline>  "content": '' @ quoteJSON ''hello''
                 @ '',\<newline>  "eventTimestamp": '' @ quoteJSON ''2024-01-15T14:30:00.000Z''
                 @ (if truthy (own record_r1 ''location'')
                    then '',\<newline>  "location": ''
                         @ (case serialize ''  '' ''  '' (own record_r1 ''location'') of
                              Some x \<Rightarrow> x | None \<Rightarrow> [])
                    else [])
                 @ ''\<newline>}''))\<close>
    by blast
  with noloc have display: \<open>sealableContentDisplay record_r1 =
       Inr (Some (''{\<newline>  "id": '' @ quoteJSON ''r1''
                  @ '',\<newline>  "ownerId": '' @ quoteJSON ''u1''
                  @ '',\<newline>  "title": '' @ quoteJSON ''T''
                  @ '',\<newline>  "content": '' @ quoteJSON ''hello''
                  @ '',\<newline>  "eventTimestamp": '' @ quoteJSON ''2024-01-15T14:30:00.000Z''
                  @ ''\<newline>}''))\<close>
    by simp
  from shown fields display differ show ?thesis
    by blast
qed

text \<open>
  The claim as the specification words it says that the displayed text itself is sorted
  and free of whitespace, so that hashing it gives the stored hash. For the record of the
  specification's own scenario the page displays \<open>id\<close> first and one member per
  indented line, while the canonical form of the same object starts with \<open>content\<close>
  and has no whitespace.
\<close>

theorem sealableContentDisplay_not_canonical:
  \<open>sealableContentDisplay record_r1 =
     Inr (Some ''{\<newline>  "id": "r1",\<newline>  "ownerId": "u1",\<newline>  "title": "T",\<newline>  "content": "hello",\<newline>  "eventTimestamp": "2024-01-15T14:30:00.000Z"\<newline>}'')
   \<and> thenE (sealableContent record_r1) (\<lambda>obj. Inr (canonicalJSON obj)) =
     Inr (Some ''{"content":"hello","eventTimestamp":"2024-01-15T14:30:00.000Z","id":"r1","ownerId":"u1","title":"T"}'')
   \<and> sealableContentDisplay record_r1 \<noteq> thenE (sealableContent record_r1) (\<lambda>obj. Inr (canonicalJSON obj))\<close>
proof -
  have shown: \<open>sealableContentDisplay record_r1 =
     Inr (Some ''{\<newline>  "id": "r1",\<newline>  "ownerId": "u1",\<newline>  "title": "T",\<newline>  "content": "hello",\<newline>  "eventTimestamp": "2024-01-15T14:30:00.000Z"\<newline>}'')\<close>
    by (simp add: sealableContentDisplay_def sealableContent_def record_r1_def thenE_def
          JSON_stringify_2_def wrap_def join_def quoteJSON_def quoteChar_def dquote_def
          backslash_def newline_def)
  have canonical: \<open>thenE (sealableContent record_r1) (\<lambda>obj. Inr (canonicalJSON obj)) =
     Inr (Some ''{"content":"hello","eventTimestamp":"2024-01-15T14:30:00.000Z","id":"r1","ownerId":"u1","title":"T"}'')\<close>
    by (simp add: canonicalJSON_def sealableContent_def record_r1_def thenE_def
          JSON_stringify_def wrap_def join_def quoteJSON_def quoteChar_def dquote_def
          backslash_def)
  from shown canonical show ?thesis
    by simp
qed

lemma exportFallback_own:
  assumes "truthy rec"
  shows "exportFallback rec publicKey =
    Inr (JObj (map (\<lambda>k. (k, own rec k))
                 [''id'', ''ownerId'', ''title'', ''content'', ''eventTimestamp'',
                  ''sealedTimestamp'', ''contentHash'', ''signature'', ''version'', ''status'',
                  ''sealingVersion'']
               @ (if truthy (own rec ''location'') then [(''location'', own rec ''location'')] else [])
               @ (if truthy publicKey then [(''publicKey'', own publicKey ''publicKeyPEM'')] else [])
               @ (if truthy (own rec ''timestampProof'')
                  then [(''timestampProof'', own rec ''timestampProof'')] else [])))"
proof -
  from assms have r: "rec \<noteq> JNull" "rec \<noteq> JUndefined"
    using truthy_defined by blast+
  have "truthy publicKey \<Longrightarrow> getProp publicKey ''publicKeyPEM'' = Inr (own publicKey ''publicKeyPEM'')"
    using truthy_defined getProp_own by blast
  with r show ?thesis
    by (simp add: exportFallback_def pick_own getProp_own thenE_def)
qed

lemma getVerificationBundle_delivers:
  assumes "fetch (getVerificationBundle_request e rid) = Responded resp" and "ok resp"
    and "json resp = Inr v" and "v \<noteq> JNull" and "v \<noteq> JUndefined" and "truthy (own v ''data'')"
  shows "getVerificationBundle e fetch rid = Inr (own v ''data'')"
  using assms
  by (simp add: getVerificationBundle_def api_result_def api_success_def await_json_def thenE_def
        getProp_own)

lemma written_keys_subset: "set (written_keys (JObj kvs)) \<subseteq> set (map fst kvs)"
  by (auto simp: written_keys_def)

lemma fallback_names:
  "map fst (map (\<lambda>k. (k, own rec k))
                 [''id'', ''ownerId'', ''title'', ''content'', ''eventTimestamp'',
                  ''sealedTimestamp'', ''contentHash'', ''signature'', ''version'', ''status'',
                  ''sealingVersion'']
               @ (if a then [(''location'', x)] else [])
               @ (if b then [(''publicKey'', y)] else [])
               @ (if c then [(''timestampProof'', z)] else []))
   = [''id'', ''ownerId'', ''title'', ''content'', ''eventTimestamp'',
      ''sealedTimestamp'', ''contentHash'', ''signature'', ''version'', ''status'',
      ''sealingVersion'']
     @ (if a then [''location''] else []) @ (if b then [''publicKey''] else [])
     @ (if c then [''timestampProof''] else [])"
  by simp

lemma fallback_names_no_key_version:
  "''publicKeyVersion'' \<notin> set ([''id'', ''ownerId'', ''title'', ''content'', ''eventTimestamp'',
      ''sealedTimestamp'', ''contentHash'', ''signature'', ''version'', ''status'',
      ''sealingVersion'']
     @ (if a then [''location''] else []) @ (if b then [''publicKey''] else [])
     @ (if c then [''timestampProof''] else []))"
  by simp

lemma exportFallback_not_wire_format:
  assumes "truthy rec"
  shows "thenE (exportFallback rec publicKey) (\<lambda>obj. Inr (spec_wire_format obj)) = Inr False"
proof -
  let ?kvs = "map (\<lambda>k. (k, own rec k))
                 [''id'', ''ownerId'', ''title'', ''content'', ''eventTimestamp'',
                  ''sealedTimestamp'', ''contentHash'', ''signature'', ''version'', ''status'',
                  ''sealingVersion'']
               @ (if truthy (own rec ''location'') then [(''location'', own rec ''location'')] else [])
               @ (if truthy publicKey then [(''publicKey'', own publicKey ''publicKeyPEM'')] else [])
               @ (if truthy (own rec ''timestampProof'')
                  then [(''timestampProof'', own rec ''timestampProof'')] else [])"
  have "set (written_keys (JObj ?kvs)) \<subseteq> set (map fst ?kvs)"
    by (rule written_keys_subset)
  moreover have "''publicKeyVersion'' \<notin> set (map fst ?kvs)"
    unfolding fallback_names by (rule fallback_names_no_key_version)
  ultimately have absent: "''publicKeyVersion'' \<notin> set (written_keys (JObj ?kvs))"
    by blast
  have "''publicKeyVersion'' \<in> set spec_required_members"
    by (simp add: spec_required_members_def)
  with absent have "\<not> list_all (\<lambda>k. k \<in> set (written_keys (JObj ?kvs))) spec_required_members"
    unfolding list_all_iff by blast
  then have "spec_wire_format (JObj ?kvs) = False"
    unfolding spec_wire_format_def by blast
  then show ?thesis
    unfolding exportFallback_own [OF assms] thenE_def sum.case by (rule arg_cong)
qed

text \<open>
  Claim C3, as the code has it. The frontend gives a verification bundle no shape of its
  own. The bundle the page holds is whatever truthy \<open>data\<close> the service answered with,
  unchanged, and the export section prints it unchanged; nothing is checked, added or
  removed. When the bundle could not be fetched the state is \<open>null\<close> and the page
  exports an object built from the record: the eleven members from \<open>id\<close> to
  \<open>sealingVersion\<close>, then \<open>location\<close>, \<open>publicKey\<close> (the PEM text alone) and
  \<open>timestampProof\<close>, each only when truthy. That object never has the wire format of
  the specification: it has no \<open>publicKeyVersion\<close>.
\<close>

theorem exported_bundle_shapes:
  assumes "truthy rec"
  shows "(\<forall>resp v. fetch (getVerificationBundle_request e rid) = Responded resp \<and> ok resp
             \<and> json resp = Inr v \<and> v \<noteq> JNull \<and> v \<noteq> JUndefined \<and> truthy (own v ''data'') \<longrightarrow>
           loadVerificationBundle e fetch rid = own v ''data''
           \<and> exportDisplay (loadVerificationBundle e fetch rid) rec publicKey =
               Inr (JSON_stringify_2 (own v ''data'')))
       \<and> (\<forall>err. getVerificationBundle e fetch rid = Inl err \<longrightarrow>
             loadVerificationBundle e fetch rid = JNull
             \<and> exportDisplay (loadVerificationBundle e fetch rid) rec publicKey =
                 thenE (exportFallback rec publicKey) (\<lambda>obj. Inr (JSON_stringify_2 obj)))
       \<and> exportFallback rec publicKey =
           Inr (JObj (map (\<lambda>k. (k, own rec k))
                        [''id'', ''ownerId'', ''title'', ''content'', ''eventTimestamp'',
                         ''sealedTimestamp'', ''contentHash'', ''signature'', ''version'',
                         ''status'', ''sealingVersion'']
                 @ (if truthy (own rec ''location'') then [(''location'', own rec ''location'')]
                    else [])
                 @ (if truthy publicKey then [(''publicKey'', own publicKey ''publicKeyPEM'')]
                    else [])
                 @ (if truthy (own rec ''timestampProof'')
                    then [(''timestampProof'', own rec ''timestampProof'')] else [])))
       \<and> thenE (exportFallback rec publicKey) (\<lambda>obj. Inr (spec_wire_format obj)) = Inr False"
proof (intro conjI allI impI)
  fix resp v
  assume h: "fetch (getVerificationBundle_request e rid) = Responded resp \<and> ok resp
             \<and> json resp = Inr v \<and> v \<noteq> JNull \<and> v \<noteq> JUndefined \<and> truthy (own v ''data'')"
  then have got: "getVerificationBundle e fetch rid = Inr (own v ''data'')"
    by (intro getVerificationBundle_delivers [of fetch e rid resp v]) simp_all
  then show "loadVerificationBundle e fetch rid = own v ''data''"
    by (simp add: loadVerificationBundle_def)
  with h show "exportDisplay (loadVerificationBundle e fetch rid) rec publicKey =
               Inr (JSON_stringify_2 (own v ''data''))"
    by (simp add: exportDisplay_def)
next
  fix err
  assume "getVerificationBundle e fetch rid = Inl err"
  then show "loadVerificationBundle e fetch rid = JNull"
    by (simp add: loadVerificationBundle_def)
  then show "exportDisplay (loadVerificationBundle e fetch rid) rec publicKey =
                 thenE (exportFallback rec publicKey) (\<lambda>obj. Inr (JSON_stringify_2 obj))"
    by (simp add: exportDisplay_def)
next
  from assms show "exportFallback rec publicKey =
           Inr (JObj (map (\<lambda>k. (k, own rec k))
                        [''id'', ''ownerId'', ''title'', ''content'', ''eventTimestamp'',
                         ''sealedTimestamp'', ''contentHash'', ''signature'', ''version'',
                         ''status'', ''sealingVersion'']
                 @ (if truthy (own rec ''location'') then [(''location'', own rec ''location'')]
                    else [])
                 @ (if truthy publicKey then [(''publicKey'', own publicKey ''publicKeyPEM'')]
                    else [])
                 @ (if truthy (own rec ''timestampProof'')
                    then [(''timestampProof'', own rec ''timestampProof'')] else [])))"
    by (rule exportFallback_own)
next
  from assms show "thenE (exportFallback rec publicKey) (\<lambda>obj. Inr (spec_wire_format obj)) = Inr False"
    by (rule exportFallback_not_wire_format)
qed

theorem exported_bundle_shapes_witness:
  "truthy record_r1
   \<and> loadVerificationBundle \<lparr> VITE_API_URL = None, VITE_SUPABASE_ANON_KEY = None \<rparr>
       (\<lambda>q. Responded \<lparr> status = 200, json = Inr (JObj [(''data'', JObj [(''foo'', JNum ''1'')])]) \<rparr>)
       ''r1'' = JObj [(''foo'', JNum ''1'')]
   \<and> (\<exists>obj. exportFallback record_r1 publicKey_v1 = Inr obj
         \<and> written_keys obj =
             [''id'', ''ownerId'', ''title'', ''content'', ''eventTimestamp'', ''sealedTimestamp'',
              ''contentHash'', ''signature'', ''version'', ''status'', ''sealingVersion'',
              ''publicKey'']
         \<and> own obj ''publicKey'' = JStr ''PEM'')"
proof -
  let ?E = "\<lparr> VITE_API_URL = None, VITE_SUPABASE_ANON_KEY = None \<rparr>"
  let ?F = "\<lambda>q :: request. Responded
              \<lparr> status = 200, json = Inr (JObj [(''data'', JObj [(''foo'', JNum ''1'')])]) \<rparr>"
  have h: "truthy record_r1"
    by (simp add: record_r1_def)
  note main = exported_bundle_shapes
    [where rec = record_r1 and fetch = ?F and e = ?E and rid = "''r1''"
       and publicKey = publicKey_v1, OF h]
  from main have
    "loadVerificationBundle ?E ?F ''r1'' = own (JObj [(''data'', JObj [(''foo'', JNum ''1'')])]) ''data''"
    by (simp add: ok_def)
  then have loaded: "loadVerificationBundle ?E ?F ''r1'' = JObj [(''foo'', JNum ''1'')]"
    by simp
  from main have "\<exists>obj. exportFallback record_r1 publicKey_v1 = Inr obj
         \<and> written_keys obj =
             [''id'', ''ownerId'', ''title'', ''content'', ''eventTimestamp'', ''sealedTimestamp'',
              ''contentHash'', ''signature'', ''version'', ''status'', ''sealingVersion'',
              ''publicKey'']
         \<and> own obj ''publicKey'' = JStr ''PEM''"
    by (simp add: record_r1_def publicKey_v1_def written_keys_def)
  with h loaded show ?thesis
    by blast
qed

text \<open>
  Neither document has the wire format of the specification. A bundle that follows the
  declared interface reaches the page unchanged; it has \<open>recordId\<close> and no top-level
  \<open>id\<close> (the record's fields sit under \<open>sealableContent\<close>), and its \<open>publicKey\<close>
  also carries \<open>createdAt\<close>. The page's own export for the record of the scenario has no
  \<open>publicKeyVersion\<close> and a \<open>publicKey\<close> that is a string.
\<close>

theorem VerificationBundle_wire_format_counterexample:
  "loadVerificationBundle \<lparr> VITE_API_URL = None, VITE_SUPABASE_ANON_KEY = None \<rparr>
       (\<lambda>q. Responded \<lparr> status = 200, json = Inr (JObj [(''data'', bundle_b1)]) \<rparr>) ''r1''
     = bundle_b1
   \<and> \<not> spec_wire_format bundle_b1
   \<and> ''id'' \<notin> set (written_keys bundle_b1)
   \<and> ''recordId'' \<in> set (written_keys bundle_b1)
   \<and> ''createdAt'' \<in> set (written_keys (own bundle_b1 ''publicKey''))
   \<and> thenE (exportFallback record_r1 publicKey_v1) (\<lambda>obj. Inr (spec_wire_format obj)) = Inr False"
  by (simp add: loadVerificationBundle_def getVerificationBundle_def api_result_def
        api_success_def await_json_def ok_def spec_wire_format_def bundle_b1_def
        written_keys_def spec_required_members_def exportFallback_def record_r1_def
        publicKey_v1_def thenE_def)

section \<open>Properties of the record creation form\<close>

lemma validate_ok:
  "snd (validate formData) \<longleftrightarrow>
     trim (form_title formData) \<noteq> [] \<and> length (form_title formData) \<le> 500
     \<and> trim (form_content formData) \<noteq> [] \<and> length (form_content formData) \<le> 10000000
     \<and> form_eventTimestamp formData \<noteq> []"
  by (auto simp: validate_def Let_def)

lemma handleSubmit_calls:
  "onSubmit_calls (handleSubmit toISOString formData files) \<noteq> [] \<longleftrightarrow>
     snd (validate formData) \<and> toISOString (form_eventTimestamp formData) \<noteq> None"
  by (cases "validate formData")
     (auto simp: handleSubmit_def Let_def split: option.splits bool.splits)

lemma trim_trailing_space:
  assumes "0 < n" and "\<not> isWhiteSpace a" and "isWhiteSpace b"
  shows "trim (replicate n a @ [b]) = replicate n a"
proof -
  from assms(1) obtain m where n: "n = Suc m"
    by (cases n) auto
  have front: "dropWhile isWhiteSpace (replicate n a @ [b]) = replicate n a @ [b]"
    using assms(2) n by simp
  have "rev (replicate n a @ [b]) = b # replicate n a"
    by simp
  then have "dropWhile isWhiteSpace (rev (replicate n a @ [b])) = replicate n a"
    using assms(2,3) n by simp
  with front show ?thesis
    by (simp add: trim_def)
qed

text \<open>
  Claim C6, as the code has it. For every form state whose event timestamp is empty or a
  text that \<open>Date\<close> can read (all that a \<open>datetime-local\<close> input holds),
  \<open>handleSubmit\<close> calls \<open>onSubmit\<close> if and only if the trimmed title is not empty and
  the title as typed has at most 500 characters, the trimmed content is not empty and the
  content as typed has at most 10,000,000 characters, and the event timestamp is not
  empty. It then calls it exactly once, with the trimmed title and content.
\<close>

theorem handleSubmit_iff_valid:
  assumes "form_eventTimestamp formData = [] \<or> toISOString (form_eventTimestamp formData) \<noteq> None"
  shows "(onSubmit_calls (handleSubmit toISOString formData files) \<noteq> [] \<longleftrightarrow>
            trim (form_title formData) \<noteq> [] \<and> length (form_title formData) \<le> 500
            \<and> trim (form_content formData) \<noteq> [] \<and> length (form_content formData) \<le> 10000000
            \<and> form_eventTimestamp formData \<noteq> [])
       \<and> (\<forall>d. d \<in> set (onSubmit_calls (handleSubmit toISOString formData files)) \<longrightarrow>
             title d = trim (form_title formData) \<and> content d = trim (form_content formData)
             \<and> toISOString (form_eventTimestamp formData) = Some (eventTimestamp d))
       \<and> length (onSubmit_calls (handleSubmit toISOString formData files)) \<le> 1"
proof (intro conjI)
  from assms show "onSubmit_calls (handleSubmit toISOString formData files) \<noteq> [] \<longleftrightarrow>
            trim (form_title formData) \<noteq> [] \<and> length (form_title formData) \<le> 500
            \<and> trim (form_content formData) \<noteq> [] \<and> length (form_content formData) \<le> 10000000
            \<and> form_eventTimestamp formData \<noteq> []"
    unfolding handleSubmit_calls validate_ok by blast
  show "\<forall>d. d \<in> set (onSubmit_calls (handleSubmit toISOString formData files)) \<longrightarrow>
             title d = trim (form_title formData) \<and> content d = trim (form_content formData)
             \<and> toISOString (form_eventTimestamp formData) = Some (eventTimestamp d)"
    by (cases "validate formData")
       (auto simp: handleSubmit_def Let_def split: option.splits bool.splits)
  show "length (onSubmit_calls (handleSubmit toISOString formData files)) \<le> 1"
    by (cases "validate formData")
       (auto simp: handleSubmit_def Let_def split: option.splits bool.splits)
qed

theorem handleSubmit_iff_valid_witness:
  "onSubmit_calls
     (handleSubmit (\<lambda>s. Some (s @ [0x5A]))
        \<lparr> form_title = [0x20, 0x54, 0x20], form_content = [0x68, 0x69],
          form_eventTimestamp = [0x32], form_description = [], form_tags = [] \<rparr> [])
   = [\<lparr> title = [0x54], content = [0x68, 0x69], eventTimestamp = [0x32, 0x5A],
        description = None, tags = None, attachmentMetadata = None \<rparr>]"
proof -
  let ?iso = "\<lambda>s :: ustring. Some (s @ [0x5A])"
  let ?st = "\<lparr> form_title = [0x20, 0x54, 0x20], form_content = [0x68, 0x69],
          form_eventTimestamp = [0x32], form_description = [], form_tags = [] \<rparr>"
  have h: "form_eventTimestamp ?st = [] \<or> ?iso (form_eventTimestamp ?st) \<noteq> None"
    by simp
  have t: "trim (form_title ?st) = [0x54]" and c: "trim (form_content ?st) = [0x68, 0x69]"
    by (simp_all add: trim_def isWhiteSpace_def)
  from handleSubmit_iff_valid [where formData = ?st and toISOString = ?iso and files = "[]", OF h] t c
  have ne: "onSubmit_calls (handleSubmit ?iso ?st []) \<noteq> []"
    and len: "length (onSubmit_calls (handleSubmit ?iso ?st [])) \<le> 1"
    by simp_all
  then obtain d where d: "onSubmit_calls (handleSubmit ?iso ?st []) = [d]"
    by (cases "onSubmit_calls (handleSubmit ?iso ?st [])") auto
  then show ?thesis
    by (simp add: handleSubmit_def validate_def Let_def trim_def isWhiteSpace_def)
qed

text \<open>
  The claim as the specification words it bounds the trimmed title. A title of 500 letters
  followed by one space trims to 500 characters, which is within the bound, and the form
  still refuses it: the length test reads the 501 characters as typed.
\<close>

theorem handleSubmit_trimmed_length_counterexample:
  "trim (replicate 500 0x61 @ [0x20]) \<noteq> []
   \<and> length (trim (replicate 500 0x61 @ [0x20])) \<le> 500
   \<and> trim [0x78] \<noteq> [] \<and> length (trim [0x78]) \<le> 10000000
   \<and> [0x32 :: 16 word] \<noteq> []
   \<and> onSubmit_calls
       (handleSubmit (\<lambda>s. Some (s @ [0x5A]))
          \<lparr> form_title = replicate 500 0x61 @ [0x20], form_content = [0x78],
            form_eventTimestamp = [0x32], form_description = [], form_tags = [] \<rparr> []) = []
   \<and> title_error (errors
       (handleSubmit (\<lambda>s. Some (s @ [0x5A]))
          \<lparr> form_title = replicate 500 0x61 @ [0x20], form_content = [0x78],
            form_eventTimestamp = [0x32], form_description = [], form_tags = [] \<rparr> []))
     = Some ''Title must be 500 characters or less''"
proof -
  have t: "trim (replicate 500 0x61 @ [0x20]) = replicate 500 0x61"
    by (rule trim_trailing_space) (simp_all add: isWhiteSpace_def)
  have x: "trim [0x78] = [0x78]"
    by (simp add: trim_def isWhiteSpace_def)
  show ?thesis
    unfolding t x by (simp add: handleSubmit_def validate_def Let_def t x)
qed

section \<open>Properties of sealing and verification\<close>

lemma own_sealableFields:
  "k \<in> set [''id'', ''ownerId'', ''title'', ''content'', ''eventTimestamp''] \<Longrightarrow>
   own (sealableFields c) k = own c k"
  by (auto simp: sealableFields_def)

lemma own_sealableFields_location:
  "own (sealableFields c) ''location'' =
     (if own c ''location'' = JNull then JUndefined else own c ''location'')"
  by (simp add: sealableFields_def)

lemma sealableFields_idem: "sealableFields (sealableFields c) = sealableFields c"
  by (simp add: sealableFields_def)

lemma canonicalize_sealableFields:
  assumes "canonicalize c = Inr t"
  shows "canonicalize (sealableFields c) = Inr t"
proof -
  have fin: "finiteNumbers (own c ''location'') \<Longrightarrow> finiteNumbers (own (sealableFields c) ''location'')"
    by (simp add: own_sealableFields_location)
  from assms have ok:
    "list_all (\<lambda>k. isString (own c k)) [''id'', ''ownerId'', ''title'', ''content'', ''eventTimestamp'']"
    "isIsoTimestamp (toString (own c ''eventTimestamp''))"
    "finiteNumbers (own c ''location'')"
    and t: "canonicalJSON (sealableFields c) = Some t"
    by (auto simp: canonicalize_def split: if_splits option.splits)
  from ok(1) have
    "list_all (\<lambda>k. isString (own (sealableFields c) k))
       [''id'', ''ownerId'', ''title'', ''content'', ''eventTimestamp'']"
    by (simp add: own_sealableFields)
  moreover from ok(2) have "isIsoTimestamp (toString (own (sealableFields c) ''eventTimestamp''))"
    by (simp add: own_sealableFields)
  moreover note fin [OF ok(3)]
  ultimately show ?thesis
    using t unfolding canonicalize_def [of "sealableFields c"] sealableFields_idem by simp
qed

lemma seal_result:
  assumes "canonicalize c = Inr t" and "privateKey key = Some sk"
  shows "seal p key sealingVersion now Drafting c =
    Inr \<lparr> sr_content = sealableFields c, sr_contentHash = digestOf p t,
          sr_signature = sign p (digestOf p t) sk, sr_sealingVersion = sealingVersion,
          sr_publicKeyVersion = keyVersion key, sr_sealedTimestamp = now,
          sr_timestampProof = attest p (digestOf p t), sr_status = ''SEALED'' \<rparr>"
  using assms by (simp add: seal_def)

lemma verify_sealed:
  assumes valid: "canonicalize c = Inr t"
    and trusted: "trustedPublicKeys kv = Some pk"
    and keypair: "\<forall>d. verifySignature p d (sign p d sk) pk"
    and authority: "\<forall>d proof. attest p d = Some proof \<longrightarrow> verifyAttestation p proof d"
  shows "v_isValid (verify p trustedPublicKeys
           \<lparr> sr_content = sealableFields c, sr_contentHash = digestOf p t,
             sr_signature = sign p (digestOf p t) sk, sr_sealingVersion = sealingVersion,
             sr_publicKeyVersion = kv, sr_sealedTimestamp = now,
             sr_timestampProof = attest p (digestOf p t), sr_status = ''SEALED'' \<rparr>)"
proof -
  have c: "canonicalize (sealableFields c) = Inr t"
    using valid by (rule canonicalize_sealableFields)
  have ts: "(case attest p (digestOf p t) of None \<Rightarrow> None
             | Some proof \<Rightarrow> Some (verifyAttestation p proof (digestOf p t))) \<noteq> Some False"
    using authority by (cases "attest p (digestOf p t)") auto
  show ?thesis
    using c trusted keypair ts by (simp add: verify_def Let_def)
qed

lemma createTruthRecord_delivers:
  assumes "fetch (createTruthRecord_request e data) = Responded resp" and "ok resp"
    and "json resp = Inr (JObj [(''data'', d)])" and "truthy d"
  shows "createTruthRecord e fetch data = Inr d"
  using assms
  by (simp add: createTruthRecord_def api_result_def api_success_def await_json_def thenE_def)

lemma verifyRecord_delivers:
  assumes "fetch (verifyRecord_request e rid) = Responded resp" and "ok resp"
    and "json resp = Inr (JObj [(''data'', d)])" and "truthy d"
  shows "verifyRecord e fetch rid = Inr d"
  using assms
  by (simp add: verifyRecord_def api_result_def api_success_def await_json_def thenE_def)

text \<open>
  Claim C2. Let the content be valid (the Canonicalizer accepts it), the signer have its
  private key, the verifier trust the public key of that key version, the two keys be a
  pair (every signature made with the private key verifies under the public key) and the
  trusted time authority accept the proofs it issued. Then sealing succeeds, and
  verifying the sealed record gives a verdict with \<open>isValid\<close> true. Through the
  services: when the backend answers \<open>create-record\<close> with that record,
  \<open>createTruthRecord\<close> returns it, and when it answers \<open>verify-record\<close> with that
  verdict, \<open>verifyRecord\<close> returns a verdict whose \<open>isValid\<close> is \<open>true\<close>.
\<close>

theorem seal_then_verify_valid:
  assumes valid: "canonicalize c = Inr canonicalForm"
    and signer: "privateKey key = Some sk"
    and trusted: "trustedPublicKeys (keyVersion key) = Some pk"
    and keypair: "\<forall>d. verifySignature p d (sign p d sk) pk"
    and authority: "\<forall>d proof. attest p d = Some proof \<longrightarrow> verifyAttestation p proof d"
  shows "\<exists>r. seal p key sealingVersion now Drafting c = Inr r
           \<and> v_isValid (verify p trustedPublicKeys r)
           \<and> (\<forall>e fetch data resp.
                 fetch (createTruthRecord_request e data) = Responded resp \<and> ok resp
                 \<and> json resp = Inr (JObj [(''data'', SealedRecord_json r)]) \<longrightarrow>
                 createTruthRecord e fetch data = Inr (SealedRecord_json r))
           \<and> (\<forall>e fetch rid resp.
                 fetch (verifyRecord_request e rid) = Responded resp \<and> ok resp
                 \<and> json resp = Inr (JObj [(''data'', verdict_json rid (verify p trustedPublicKeys r))]) \<longrightarrow>
                 (\<exists>v. verifyRecord e fetch rid = Inr v \<and> own v ''isValid'' = JBool True))"
proof -
  let ?r = "\<lparr> sr_content = sealableFields c, sr_contentHash = digestOf p canonicalForm,
          sr_signature = sign p (digestOf p canonicalForm) sk, sr_sealingVersion = sealingVersion,
          sr_publicKeyVersion = keyVersion key, sr_sealedTimestamp = now,
          sr_timestampProof = attest p (digestOf p canonicalForm), sr_status = ''SEALED'' \<rparr>"
  have sealed: "seal p key sealingVersion now Drafting c = Inr ?r"
    using valid signer by (rule seal_result)
  have isValid: "v_isValid (verify p trustedPublicKeys ?r)"
    using valid trusted keypair authority by (rule verify_sealed)
  have create: "createTruthRecord e fetch data = Inr (SealedRecord_json ?r)"
    if "fetch (createTruthRecord_request e data) = Responded resp \<and> ok resp
        \<and> json resp = Inr (JObj [(''data'', SealedRecord_json ?r)])"
    for e fetch data resp
    using that by (intro createTruthRecord_delivers [of fetch e data resp])
      (simp_all add: SealedRecord_json_def)
  have check: "\<exists>v. verifyRecord e fetch rid = Inr v \<and> own v ''isValid'' = JBool True"
    if "fetch (verifyRecord_request e rid) = Responded resp \<and> ok resp
        \<and> json resp = Inr (JObj [(''data'', verdict_json rid (verify p trustedPublicKeys ?r))])"
    for e fetch rid resp
  proof -
    from that have "verifyRecord e fetch rid = Inr (verdict_json rid (verify p trustedPublicKeys ?r))"
      by (intro verifyRecord_delivers [of fetch e rid resp]) (simp_all add: verdict_json_def)
    moreover have "own (verdict_json rid (verify p trustedPublicKeys ?r)) ''isValid'' = JBool True"
      using isValid by (simp add: verdict_json_def)
    ultimately show ?thesis
      by blast
  qed
  from sealed isValid create check show ?thesis
    by blast
qed

lemma canonicalize_content_r1:
  \<open>canonicalize content_r1 =
     Inr ''{"content":"hello","eventTimestamp":"2024-01-15T14:30:00.000Z","id":"r1","ownerId":"u1","title":"T"}''\<close>
  by (simp add: canonicalize_def content_r1_def isString_def isIsoTimestamp_def
        sealableFields_def canonicalJSON_def JSON_stringify_def wrap_def join_def quoteJSON_def
        quoteChar_def dquote_def backslash_def)

theorem seal_then_verify_valid_witness:
  \<open>canonicalize content_r1 =
     Inr ''{"content":"hello","eventTimestamp":"2024-01-15T14:30:00.000Z","id":"r1","ownerId":"u1","title":"T"}''
   \<and> (\<exists>r. seal toy_primitives \<lparr> keyVersion = ''v1'', privateKey = Some ''k'' \<rparr> ''1.0.0''
              ''2024-01-15T15:00:00.000Z'' Drafting content_r1 = Inr r
          \<and> v_isValid (verify toy_primitives [''v1'' \<mapsto> ''k''] r))\<close>
proof -
  let ?key = "\<lparr> keyVersion = ''v1'', privateKey = Some ''k'' \<rparr>"
  note valid = canonicalize_content_r1
  have signer: "privateKey ?key = Some ''k''"
    by simp
  have trusted: "[''v1'' \<mapsto> ''k''] (keyVersion ?key) = Some ''k''"
    by simp
  have keypair: "\<forall>d. verifySignature toy_primitives d (sign toy_primitives d ''k'') ''k''"
    by (simp add: toy_primitives_def)
  have authority:
    "\<forall>d proof. attest toy_primitives d = Some proof \<longrightarrow> verifyAttestation toy_primitives proof d"
    by (auto simp: toy_primitives_def)
  from seal_then_verify_valid
    [where c = content_r1 and key = ?key and sk = "''k''" and pk = "''k''"
       and trustedPublicKeys = "[''v1'' \<mapsto> ''k'']" and p = toy_primitives
       and sealingVersion = "''1.0.0''" and now = "''2024-01-15T15:00:00.000Z''",
     OF valid signer trusted keypair authority] valid
  show ?thesis
    by blast
qed

text \<open>
  Claim C4. For a record without a timestamp proof the verdict of the Verifier has
  \<open>timestampValid\<close> unknown, which travels as \<open>null\<close> and not as \<open>false\<close>, and
  \<open>isValid\<close> is exactly the conjunction of integrity and signature: the absence takes
  nothing away. The verdict that \<open>handleVerify\<close> puts on the page keeps both: its
  \<open>timestampValid\<close> is \<open>null\<close>, a value its declared type \<open>boolean | null\<close> admits.
\<close>

theorem absent_proof_timestamp_null:
  assumes "sr_timestampProof r = None"
  shows "v_timestampValid (verify p trustedPublicKeys r) = None
       \<and> v_isValid (verify p trustedPublicKeys r) =
           (v_integrityValid (verify p trustedPublicKeys r)
            \<and> v_signatureValid (verify p trustedPublicKeys r))
       \<and> own (verdict_json rid (verify p trustedPublicKeys r)) ''timestampValid'' = JNull
       \<and> own (verdict_json rid (verify p trustedPublicKeys r)) ''timestampValid'' \<noteq> JBool False
       \<and> (\<forall>e fetch resp st.
             rid \<noteq> [] \<and> fetch (verifyRecord_request e rid) = Responded resp \<and> ok resp
             \<and> json resp = Inr (JObj [(''data'', verdict_json rid (verify p trustedPublicKeys r))]) \<longrightarrow>
             verificationResult (handleVerify e fetch (Some rid) st) =
               Some \<lparr> isValid = JBool (v_integrityValid (verify p trustedPublicKeys r)
                                       \<and> v_signatureValid (verify p trustedPublicKeys r)),
                      integrityValid = JBool (v_integrityValid (verify p trustedPublicKeys r)),
                      signatureValid = JBool (v_signatureValid (verify p trustedPublicKeys r)),
                      timestampValid = JNull,
                      message = JStr (v_message (verify p trustedPublicKeys r)) \<rparr>)"
proof -
  let ?v = "verify p trustedPublicKeys r"
  have ts: "v_timestampValid ?v = None"
    using assms by (simp add: verify_def Let_def split: sum.splits)
  have valid: "v_isValid ?v = (v_integrityValid ?v \<and> v_signatureValid ?v)"
    using assms by (simp add: verify_def Let_def split: sum.splits)
  have wire: "own (verdict_json rid ?v) ''timestampValid'' = JNull"
    using ts by (simp add: verdict_json_def)
  have page: "verificationResult (handleVerify e fetch (Some rid) st) =
               Some \<lparr> isValid = JBool (v_integrityValid ?v \<and> v_signatureValid ?v),
                      integrityValid = JBool (v_integrityValid ?v),
                      signatureValid = JBool (v_signatureValid ?v),
                      timestampValid = JNull,
                      message = JStr (v_message ?v) \<rparr>"
    if "rid \<noteq> [] \<and> fetch (verifyRecord_request e rid) = Responded resp \<and> ok resp
        \<and> json resp = Inr (JObj [(''data'', verdict_json rid ?v)])"
    for e fetch resp st
  proof -
    from that have "verifyRecord e fetch rid = Inr (verdict_json rid ?v)"
      by (intro verifyRecord_delivers [of fetch e rid resp]) (simp_all add: verdict_json_def)
    then have "handleVerify_try e fetch rid =
        Inr \<lparr> isValid = JBool (v_isValid ?v), integrityValid = JBool (v_integrityValid ?v),
              signatureValid = JBool (v_signatureValid ?v), timestampValid = JNull,
              message = JStr (v_message ?v) \<rparr>"
      using ts by (simp add: handleVerify_try_def thenE_def verdict_json_def)
    with that valid show ?thesis
      by (simp add: handleVerify_def)
  qed
  have "own (verdict_json rid ?v) ''timestampValid'' \<noteq> JBool False"
    using wire by simp
  with ts valid wire page show ?thesis
    by blast
qed

theorem absent_proof_timestamp_null_witness:
  "sr_timestampProof
     \<lparr> sr_content = content_r1, sr_contentHash = ''tampered'', sr_signature = ''x'',
       sr_sealingVersion = ''1.0.0'', sr_publicKeyVersion = ''v1'',
       sr_sealedTimestamp = ''2024-01-15T15:00:00.000Z'', sr_timestampProof = None,
       sr_status = ''SEALED'' \<rparr> = None
   \<and> v_timestampValid (verify toy_primitives [''v1'' \<mapsto> ''k'']
       \<lparr> sr_content = content_r1, sr_contentHash = ''tampered'', sr_signature = ''x'',
         sr_sealingVersion = ''1.0.0'', sr_publicKeyVersion = ''v1'',
         sr_sealedTimestamp = ''2024-01-15T15:00:00.000Z'', sr_timestampProof = None,
         sr_status = ''SEALED'' \<rparr>) = None
   \<and> own (verdict_json ''r1'' (verify toy_primitives [''v1'' \<mapsto> ''k'']
       \<lparr> sr_content = content_r1, sr_contentHash = ''tampered'', sr_signature = ''x'',
         sr_sealingVersion = ''1.0.0'', sr_publicKeyVersion = ''v1'',
         sr_sealedTimestamp = ''2024-01-15T15:00:00.000Z'', sr_timestampProof = None,
         sr_status = ''SEALED'' \<rparr>)) ''timestampValid'' = JNull"
proof -
  let ?r = "\<lparr> sr_content = content_r1, sr_contentHash = ''tampered'', sr_signature = ''x'',
         sr_sealingVersion = ''1.0.0'', sr_publicKeyVersion = ''v1'',
         sr_sealedTimestamp = ''2024-01-15T15:00:00.000Z'', sr_timestampProof = None,
         sr_status = ''SEALED'' \<rparr>"
  have h: "sr_timestampProof ?r = None"
    by simp
  from absent_proof_timestamp_null [OF h, of toy_primitives "[''v1'' \<mapsto> ''k'']" "''r1''"] h
  show ?thesis
    by blast
qed

end
